theory Spec2Isabelle
  imports Complex_Main "HOL-Library.Sublist"
begin

section \<open>Python strings and JSON text\<close>

text \<open>
  A Python \<open>str\<close> is a sequence of Unicode code points and \<open>len\<close> counts code points,
  so a string is modelled as the list of its code points. \<open>ascii\<close> embeds an ASCII
  literal of the source; literals with Chinese text are written as code point lists.
\<close>

type_synonym pystr = "nat list"

definition ascii :: "string \<Rightarrow> pystr" where
  "ascii s = map of_char s"

text \<open>
  \<open>json.dumps\<close> of a string, with the default \<open>ensure_ascii=True\<close>
  (\<open>json.encoder.py_encode_basestring_ascii\<close>): backslash, double quote and the five
  named control characters get a two-character escape, the printable ASCII range
  \<open>' '..'~'\<close> is copied, every other code point below \<open>0x10000\<close> becomes
  \<open>\uXXXX\<close> (lower-case hex), and a code point above becomes a surrogate pair
  (\<open>0xd800 | x\<close> and \<open>0xdc00 | x\<close> for \<open>x\<close> below 1024 are sums).
\<close>

definition hex_digit :: "nat \<Rightarrow> nat" where
  "hex_digit d = (if d < 10 then 48 + d else 87 + d)"

definition u_escape :: "nat \<Rightarrow> pystr" where
  "u_escape n = [92, 117, hex_digit (n div 4096 mod 16), hex_digit (n div 256 mod 16),
                 hex_digit (n div 16 mod 16), hex_digit (n mod 16)]"

definition escape_char :: "nat \<Rightarrow> pystr" where
  "escape_char c =
     (if c = 92 then [92, 92]
      else if c = 34 then [92, 34]
      else if c = 8 then [92, 98]
      else if c = 12 then [92, 102]
      else if c = 10 then [92, 110]
      else if c = 13 then [92, 114]
      else if c = 9 then [92, 116]
      else if 32 \<le> c \<and> c \<le> 126 then [c]
      else if c < 65536 then u_escape c
      else (let n = c - 65536;
                s1 = 55296 + (n div 1024) mod 1024;
                s2 = 56320 + n mod 1024
            in u_escape s1 @ u_escape s2))"

definition encode_basestring_ascii :: "pystr \<Rightarrow> pystr" where
  "encode_basestring_ascii s = [34] @ concat (map escape_char s) @ [34]"

section \<open>The agent\<close>

text \<open>
  An entry of \<open>session_history\<close> is a dict \<open>{"role": ..., "content": ...}\<close> of two
  strings, in this key order wherever the source builds one.
\<close>

record turn =
  role :: pystr
  content :: pystr

text \<open>
  \<open>json.dumps(item)\<close> for such a dict, with the default separators \<open>", "\<close> and
  \<open>": "\<close>: the text \<open>{"role": "<role>", "content": "<content>"}\<close>.
\<close>

definition json_dumps_turn :: "turn \<Rightarrow> pystr" where
  "json_dumps_turn item =
     [123] @ encode_basestring_ascii (ascii ''role'') @ [58, 32]
       @ encode_basestring_ascii (role item) @ [44, 32]
       @ encode_basestring_ascii (ascii ''content'') @ [58, 32]
       @ encode_basestring_ascii (content item) @ [125]"

text \<open>
  The literal assigned to \<open>self.system_prompt\<close> in \<open>__init__\<close> (agent.py, lines 19 to
  32), as written in the source: 706 code points, the doubled braces and the two
  placeholders \<open>{working_dir}\<close> and \<open>{current_date}\<close> not yet formatted.
\<close>

definition system_prompt_text :: pystr where
  "system_prompt_text = [
    20320, 26159, 19968, 20010, 24378, 22823, 30340, 65, 73, 21161, 25163, 65292, 34987, 35774,
    35745, 20026, 19968, 20010, 21487, 20197, 22312, 76, 105, 110, 117, 120, 21629, 20196,
    34892, 29615, 22659, 20013, 25191, 34892, 20219, 21153, 30340, 26234, 33021, 20195, 29702,
    12290, 20320, 30340, 30446, 26631, 26159, 29702, 35299, 21644, 25191, 34892, 29992, 25143,
    30340, 25351, 20196, 65292, 36890, 36807, 25191, 34892, 31995, 32479, 21629, 20196, 12289,
    35835, 20889, 25991, 20214, 31561, 26041, 24335, 26469, 23436, 25104, 20219, 21153, 12290,
    10, 10, 37325, 35201, 35268, 21017, 65306, 10, 49, 46, 32, 32, 20320, 24517, 39035, 20005,
    26684, 36981, 24490, 20197, 19979, 74, 83, 79, 78, 26684, 24335, 26469, 36755, 20986,
    20320, 30340, 35745, 21010, 21644, 34892, 21160, 65292, 19981, 20801, 35768, 26377, 20219,
    20309, 20854, 20182, 25991, 23383, 25110, 35299, 37322, 12290, 22914, 26524, 38656, 35201,
    21521, 29992, 25143, 36755, 20986, 20449, 24687, 65292, 21017, 20351, 29992, 32, 34, 97,
    99, 116, 105, 111, 110, 34, 58, 32, 34, 115, 112, 101, 97, 107, 34, 12290, 10, 32, 32, 32,
    32, 123, 123, 34, 97, 99, 116, 105, 111, 110, 34, 58, 32, 34, 99, 111, 109, 109, 97, 110,
    100, 34, 44, 32, 34, 99, 111, 109, 109, 97, 110, 100, 34, 58, 32, 34, 35201, 25191, 34892,
    30340, 20855, 20307, 21629, 20196, 34, 44, 32, 34, 101, 120, 112, 108, 97, 110, 97, 116,
    105, 111, 110, 34, 58, 32, 34, 20026, 20160, 20040, 35201, 25191, 34892, 27492, 21629,
    20196, 34, 125, 125, 10, 32, 32, 32, 32, 123, 123, 34, 97, 99, 116, 105, 111, 110, 34, 58,
    32, 34, 114, 101, 97, 100, 95, 102, 105, 108, 101, 34, 44, 32, 34, 112, 97, 116, 104, 34,
    58, 32, 34, 47, 112, 97, 116, 104, 47, 116, 111, 47, 102, 105, 108, 101, 34, 44, 32, 34,
    101, 120, 112, 108, 97, 110, 97, 116, 105, 111, 110, 34, 58, 32, 34, 20026, 20160, 20040,
    35201, 35835, 21462, 27492, 25991, 20214, 34, 125, 125, 10, 32, 32, 32, 32, 123, 123, 34,
    97, 99, 116, 105, 111, 110, 34, 58, 32, 34, 119, 114, 105, 116, 101, 95, 102, 105, 108,
    101, 34, 44, 32, 34, 112, 97, 116, 104, 34, 58, 32, 34, 47, 112, 97, 116, 104, 47, 116,
    111, 47, 102, 105, 108, 101, 34, 44, 32, 34, 99, 111, 110, 116, 101, 110, 116, 34, 58, 32,
    34, 25991, 20214, 30340, 26032, 20869, 23481, 34, 44, 32, 34, 101, 120, 112, 108, 97, 110,
    97, 116, 105, 111, 110, 34, 58, 32, 34, 20026, 20160, 20040, 35201, 20889, 20837, 27492,
    25991, 20214, 34, 125, 125, 10, 32, 32, 32, 32, 123, 123, 34, 97, 99, 116, 105, 111, 110,
    34, 58, 32, 34, 115, 112, 101, 97, 107, 34, 44, 32, 34, 109, 101, 115, 115, 97, 103, 101,
    34, 58, 32, 34, 20320, 24819, 23545, 29992, 25143, 35828, 30340, 35805, 34, 44, 32, 34,
    101, 120, 112, 108, 97, 110, 97, 116, 105, 111, 110, 34, 58, 32, 34, 20026, 20160, 20040,
    38656, 35201, 35828, 36825, 21477, 35805, 34, 125, 125, 10, 50, 46, 32, 32, 20320, 25317,
    26377, 115, 117, 100, 111, 26435, 38480, 65292, 22914, 26524, 38656, 35201, 65292, 21487,
    20197, 30452, 25509, 22312, 21629, 20196, 21069, 21152, 32, 39, 115, 117, 100, 111, 39,
    12290, 10, 51, 46, 32, 32, 22312, 25191, 34892, 20219, 20309, 20889, 20837, 25991, 20214,
    25110, 20462, 25913, 31995, 32479, 30340, 20851, 38190, 25805, 20316, 21069, 65292, 21153,
    24517, 20808, 35835, 21462, 25991, 20214, 20869, 23481, 65292, 30830, 35748, 21518, 20877,
    20889, 20837, 12290, 10, 52, 46, 32, 32, 27599, 27425, 21482, 36755, 20986, 19968, 20010,
    74, 83, 79, 78, 23545, 35937, 12290, 25191, 34892, 23436, 35813, 21160, 20316, 24182,
    25910, 21040, 32467, 26524, 21518, 65292, 20877, 36827, 34892, 19979, 19968, 27493, 12290,
    10, 53, 46, 32, 32, 20320, 30340, 22238, 31572, 24212, 35813, 31616, 27905, 26126, 20102,
    65292, 19987, 27880, 20110, 20219, 21153, 26412, 36523, 12290, 10, 54, 46, 32, 32, 20320,
    24403, 21069, 30340, 24037, 20316, 30446, 24405, 26159, 58, 32, 123, 119, 111, 114, 107,
    105, 110, 103, 95, 100, 105, 114, 125, 10, 55, 46, 32, 32, 20170, 22825, 26159, 58, 32,
    123, 99, 117, 114, 114, 101, 110, 116, 95, 100, 97, 116, 101, 125]"

record agent =
  api_key :: pystr
  base_url :: pystr
  session_history :: "turn list"
  max_context_length :: nat
  system_prompt :: pystr

text \<open>\<open>ECNUChatAgent.__init__\<close>.\<close>

definition init :: "pystr \<Rightarrow> agent" where
  "init key =
     \<lparr>api_key = key,
      base_url = ascii ''https://chat.ecnu.edu.cn/open/api/v1'',
      session_history = [],
      max_context_length = 30000,
      system_prompt = system_prompt_text\<rparr>"

subsection \<open>Truncating the history\<close>

text \<open>
  The \<open>for\<close> loop of \<open>_truncate_history\<close> over \<open>reversed(self.session_history)\<close>: the
  second argument is what is left of the reversed history, \<open>truncated_history.insert(0,
  item)\<close> is a cons, and \<open>break\<close> returns what has been kept so far.
\<close>

fun truncate_loop :: "nat \<Rightarrow> turn list \<Rightarrow> nat \<Rightarrow> turn list \<Rightarrow> turn list" where
  "truncate_loop limit [] total_chars truncated_history = truncated_history"
| "truncate_loop limit (item # rest) total_chars truncated_history =
     (let item_chars = length (json_dumps_turn item) in
      if total_chars + item_chars > limit then truncated_history
      else truncate_loop limit rest (total_chars + item_chars) (item # truncated_history))"

definition truncate_history :: "agent \<Rightarrow> agent" where
  "truncate_history self =
     self\<lparr>session_history :=
       truncate_loop (max_context_length self) (rev (session_history self))
         (length (system_prompt self)) []\<rparr>"

text \<open>The serialized size of a history: the sum of \<open>len(json.dumps(item))\<close> over its turns.\<close>

definition history_chars :: "turn list \<Rightarrow> nat" where
  "history_chars h = sum_list (map (\<lambda>item. length (json_dumps_turn item)) h)"

section \<open>JSON values and the Python operations on them\<close>

text \<open>
  What \<open>json.loads\<close> returns: \<open>None\<close>, a bool, an int, a float, a str, a list or a
  dict with string keys. A dict is an association list read with \<open>map_of\<close> (the keys of
  a parsed dict are distinct). A float is abstracted to a real number: the program only
  tests it for zero and prints it.
\<close>

datatype json =
    JNull
  | JBool bool
  | JInt int
  | JFloat real
  | JStr pystr
  | JList "json list"
  | JDict "(pystr \<times> json) list"

text \<open>The exceptions the handlers of the source tell apart, and those the interpreter
  raises on an ill-typed operation. All are subclasses of \<open>Exception\<close>; an interrupt
  is modelled where \<open>input\<close> raises it, not in the middle of a call.\<close>

datatype exn =
    TimeoutExpired
  | PermissionError
  | UnicodeDecodeError
  | UnicodeEncodeError
  | JSONDecodeError
  | RequestException "int option"
  | TypeError
  | KeyError
  | IndexError
  | AttributeError
  | ValueError
  | OtherException nat

text \<open>\<open>RequestException st\<close>: a \<open>requests.exceptions.RequestException\<close>; \<open>st\<close> is the
  status code of \<open>e.response\<close>, or \<open>None\<close> when the exception carries no response.\<close>

text \<open>Truth value testing, as in \<open>not x\<close>.\<close>

fun truthy :: "json \<Rightarrow> bool" where
  "truthy JNull = False"
| "truthy (JBool b) = b"
| "truthy (JInt n) = (n \<noteq> 0)"
| "truthy (JFloat x) = (x \<noteq> 0)"
| "truthy (JStr s) = (s \<noteq> [])"
| "truthy (JList xs) = (xs \<noteq> [])"
| "truthy (JDict kvs) = (kvs \<noteq> [])"

text \<open>\<open>d.get(key)\<close> and \<open>d.get(key, default)\<close> on the entries of a dict: Python's \<open>None\<close>
  is \<open>JNull\<close>.\<close>

definition dict_get_default :: "(pystr \<times> json) list \<Rightarrow> pystr \<Rightarrow> json \<Rightarrow> json" where
  "dict_get_default d key dflt = (case map_of d key of None \<Rightarrow> dflt | Some v \<Rightarrow> v)"

definition dict_get :: "(pystr \<times> json) list \<Rightarrow> pystr \<Rightarrow> json" where
  "dict_get d key = dict_get_default d key JNull"

text \<open>\<open>key in x\<close>, \<open>x[key]\<close> for a string key, \<open>x[0]\<close> and \<open>len(x)\<close>.\<close>

fun py_contains :: "pystr \<Rightarrow> json \<Rightarrow> exn + bool" where
  "py_contains key (JDict kvs) = Inr (map_of kvs key \<noteq> None)"
| "py_contains key (JList xs) = Inr (JStr key \<in> set xs)"
| "py_contains key (JStr s) = Inr (sublist key s)"
| "py_contains key _ = Inl TypeError"

fun py_getitem :: "json \<Rightarrow> pystr \<Rightarrow> exn + json" where
  "py_getitem (JDict kvs) key = (case map_of kvs key of None \<Rightarrow> Inl KeyError | Some v \<Rightarrow> Inr v)"
| "py_getitem _ key = Inl TypeError"

fun py_first :: "json \<Rightarrow> exn + json" where
  "py_first (JList xs) = (case xs of [] \<Rightarrow> Inl IndexError | x # _ \<Rightarrow> Inr x)"
| "py_first (JStr s) = (case s of [] \<Rightarrow> Inl IndexError | c # _ \<Rightarrow> Inr (JStr [c]))"
| "py_first (JDict kvs) = Inl KeyError"
| "py_first _ = Inl TypeError"

fun py_len :: "json \<Rightarrow> exn + nat" where
  "py_len (JStr s) = Inr (length s)"
| "py_len (JList xs) = Inr (length xs)"
| "py_len (JDict kvs) = Inr (length kvs)"
| "py_len _ = Inl TypeError"

text \<open>\<open>s.strip()\<close>: removes leading and trailing whitespace, the code points for which
  \<open>str.isspace\<close> holds. On a value that is not a str the attribute does not exist.\<close>

definition isspace :: "nat \<Rightarrow> bool" where
  "isspace c \<longleftrightarrow>
     (9 \<le> c \<and> c \<le> 13) \<or> (28 \<le> c \<and> c \<le> 32) \<or> c = 133 \<or> c = 160 \<or> c = 5760
     \<or> (8192 \<le> c \<and> c \<le> 8202) \<or> c = 8232 \<or> c = 8233 \<or> c = 8239 \<or> c = 8287
     \<or> c = 12288"

definition strip :: "pystr \<Rightarrow> pystr" where
  "strip s = rev (dropWhile isspace (rev (dropWhile isspace s)))"

fun py_strip :: "json \<Rightarrow> exn + pystr" where
  "py_strip (JStr s) = Inr (strip s)"
| "py_strip _ = Inl AttributeError"

text \<open>\<open>str(n)\<close> for an int.\<close>

fun nat_str :: "nat \<Rightarrow> pystr" where
  "nat_str n = (if n < 10 then [48 + n] else nat_str (n div 10) @ [48 + n mod 10])"

declare nat_str.simps [simp del]

definition int_str :: "int \<Rightarrow> pystr" where
  "int_str i = (if i < 0 then [45] @ nat_str (nat (- i)) else nat_str (nat i))"

text \<open>\<open>sep.join(parts)\<close>.\<close>

fun join :: "pystr \<Rightarrow> pystr list \<Rightarrow> pystr" where
  "join sep [] = []"
| "join sep [x] = x"
| "join sep (x # y # ys) = x @ sep @ join sep (y # ys)"

text \<open>
  \<open>json.dumps(v)\<close> with the default separators. A float is printed by \<open>float.__repr__\<close>,
  which is taken as the parameter \<open>fr\<close>.
\<close>

fun json_dumps :: "(json \<Rightarrow> pystr) \<Rightarrow> json \<Rightarrow> pystr" where
  "json_dumps fr JNull = ascii ''null''"
| "json_dumps fr (JBool b) = (if b then ascii ''true'' else ascii ''false'')"
| "json_dumps fr (JInt n) = int_str n"
| "json_dumps fr (JFloat x) = fr (JFloat x)"
| "json_dumps fr (JStr s) = encode_basestring_ascii s"
| "json_dumps fr (JList xs) = [91] @ join [44, 32] (map (json_dumps fr) xs) @ [93]"
| "json_dumps fr (JDict kvs) =
     [123] @ join [44, 32]
       (map (\<lambda>kv. encode_basestring_ascii (fst kv) @ [58, 32] @ json_dumps fr (snd kv)) kvs)
     @ [125]"

text \<open>
  \<open>template.format(**kwargs)\<close> for a template whose replacement fields are plain
  keyword names, as those of the system prompt are: \<open>{{\<close> and \<open>}}\<close> give one brace, a
  field \<open>{name}\<close> gives the argument of that name (\<open>KeyError\<close> when there is none), a
  single \<open>}\<close> or an unclosed field is a \<open>ValueError\<close>.
\<close>

fun format_text :: "(pystr \<Rightarrow> pystr option) \<Rightarrow> pystr \<Rightarrow> exn + pystr"
  and format_field :: "(pystr \<Rightarrow> pystr option) \<Rightarrow> pystr \<Rightarrow> pystr \<Rightarrow> exn + pystr" where
  "format_text kwargs [] = Inr []"
| "format_text kwargs (c # rest) =
     (if c = 123 then
        (case rest of
           [] \<Rightarrow> Inl ValueError
         | c' # rest' \<Rightarrow>
             if c' = 123 then map_sum id ((#) 123) (format_text kwargs rest')
             else format_field kwargs [] rest)
      else if c = 125 then
        (case rest of
           [] \<Rightarrow> Inl ValueError
         | c' # rest' \<Rightarrow>
             if c' = 125 then map_sum id ((#) 125) (format_text kwargs rest')
             else Inl ValueError)
      else map_sum id ((#) c) (format_text kwargs rest))"
| "format_field kwargs name [] = Inl ValueError"
| "format_field kwargs name (c # rest) =
     (if c = 125 then
        (case kwargs name of
           None \<Rightarrow> Inl KeyError
         | Some v \<Rightarrow> map_sum id ((@) v) (format_text kwargs rest))
      else format_field kwargs (name @ [c]) rest)"

section \<open>The world outside the agent\<close>

text \<open>
  The remote endpoint, the shell and the file system are external: what they answer is
  given by an environment of functions, and what the agent did to them is recorded in the
  \<open>world\<close>, which every function that touches them takes and returns. Each answer may
  depend on everything done so far, so each function of the environment reads the world.
\<close>

record request =
  url :: pystr
  authorization :: pystr
  model_name :: pystr
  messages :: "turn list"
  temperature :: real

record response =
  status_code :: int
  json_body :: "exn + json"

record completed_process =
  stdout :: pystr
  stderr :: pystr
  returncode :: int

datatype os_event =
    Ran json
  | Resolved pystr
  | Tested_is_file pystr
  | Read_text pystr pystr
  | Made_parent_dirs pystr
  | Opened_for_writing pystr
  | Wrote pystr pystr

record world =
  posts :: "request list"
  sleeps :: "nat list"
  os_events :: "os_event list"

definition log_event :: "os_event \<Rightarrow> world \<Rightarrow> world" where
  "log_event ev w = w\<lparr>os_events := os_events w @ [ev]\<rparr>"

text \<open>
  \<open>post\<close> is \<open>requests.post\<close>, \<open>json_body\<close> of its response is \<open>response.json()\<close>;
  \<open>subprocess_run\<close> is \<open>subprocess.run(command, shell=True, capture_output=True,
  text=True, timeout=30)\<close>; \<open>resolve\<close> is \<open>Path(s).resolve()\<close> for a str \<open>s\<close>, the other
  file operations are the methods of the resolved path. \<open>json_loads\<close> and \<open>repr_value\<close>
  (the text of a float, a list or a dict in an f-string) are library functions taken as
  they are. \<open>exn_message\<close> is the text \<open>str(e)\<close> of an exception, which is taken to be
  ASCII, as the English messages of the interpreter and of the libraries are when they
  show data escaped; an exception whose text holds other characters is outside the model.
  \<open>stdout_encodes\<close> says which code points from 128 on the encoding of the
  standard output can encode; every encoding in use there encodes ASCII.
\<close>

record env =
  getcwd :: pystr
  post :: "world \<Rightarrow> request \<Rightarrow> exn + response"
  subprocess_run :: "world \<Rightarrow> json \<Rightarrow> exn + completed_process"
  resolve :: "world \<Rightarrow> pystr \<Rightarrow> exn + pystr"
  is_file :: "world \<Rightarrow> pystr \<Rightarrow> exn + bool"
  read_text :: "world \<Rightarrow> pystr \<Rightarrow> pystr \<Rightarrow> exn + pystr"
  mkdir_parent :: "world \<Rightarrow> pystr \<Rightarrow> exn + unit"
  open_w :: "world \<Rightarrow> pystr \<Rightarrow> exn + unit"
  write_text :: "world \<Rightarrow> pystr \<Rightarrow> pystr \<Rightarrow> exn + unit"
  json_loads :: "pystr \<Rightarrow> exn + json"
  repr_value :: "json \<Rightarrow> pystr"
  exn_message :: "exn \<Rightarrow> String.literal"
  stdout_encodes :: "nat \<Rightarrow> bool"

text \<open>\<open>str(e)\<close>.\<close>

definition str_exn :: "env \<Rightarrow> exn \<Rightarrow> pystr" where
  "str_exn env e = ascii (String.explode (exn_message env e))"

text \<open>The text of a value inside an f-string, \<open>str(v)\<close>.\<close>

definition py_str :: "env \<Rightarrow> json \<Rightarrow> pystr" where
  "py_str env v =
     (case v of
        JStr s \<Rightarrow> s
      | JNull \<Rightarrow> ascii ''None''
      | JBool b \<Rightarrow> (if b then ascii ''True'' else ascii ''False'')
      | JInt n \<Rightarrow> int_str n
      | _ \<Rightarrow> repr_value env v)"

definition quoted :: "pystr \<Rightarrow> pystr" where
  "quoted s = [39] @ s @ [39]"

text \<open>
  \<open>print(text)\<close>: it raises \<open>UnicodeEncodeError\<close> when the text holds a code point that
  the standard output cannot encode (a lone surrogate that \<open>json.loads\<close> has produced
  from an escape, with UTF-8), and writes the text otherwise. What is written is not
  recorded. The prints that write only fixed text, numbers and the text of an exception
  are all ASCII, cannot raise, and are left out: those of the retry loop of
  \<open>_call_model\<close> (lines 64, 69, 72, 77, 106, 109, 113, 116, 120 and 125) and those of
  \<open>run\<close> about the start, the step, the exit and the exception that ends it (lines 249,
  250, 258, 271, 302, 306 and 307). Every print that shows data of the model, of the
  files or of the shell is in the model.
\<close>

definition encodable :: "env \<Rightarrow> pystr \<Rightarrow> bool" where
  "encodable env s \<longleftrightarrow> (\<forall>c \<in> set s. c < 128 \<or> stdout_encodes env c)"

definition py_print :: "env \<Rightarrow> pystr \<Rightarrow> exn + unit" where
  "py_print env s = (if encodable env s then Inr () else Inl UnicodeEncodeError)"

section \<open>Executing an action\<close>

record execution_result =
  result :: pystr

text \<open>The \<open>try\<close> block of the \<open>command\<close> branch: \<open>subprocess.run\<close>, the summary and its
  print.\<close>

definition command_try :: "env \<Rightarrow> world \<Rightarrow> json \<Rightarrow> exn + execution_result" where
  "command_try env w command =
     (case subprocess_run env w command of
        Inl e \<Rightarrow> Inl e
      | Inr p \<Rightarrow>
          (let return_code = returncode p;
               status = (if return_code = 0 then ascii ''SUCCESS'' else ascii ''FAILED'');
               output_summary =
                 ascii ''Command '' @ quoted (py_str env command)
                 @ ascii '' finished with return code '' @ int_str return_code
                 @ ascii ''.'' @ [10] @ ascii ''Status: '' @ status @ [10]
                 @ ascii ''STDOUT:'' @ [10] @ stdout p @ [10]
                 @ ascii ''STDERR:'' @ [10] @ stderr p
           in case py_print env output_summary of
                Inl e \<Rightarrow> Inl e
              | Inr _ \<Rightarrow> Inr \<lparr>result = output_summary\<rparr>))"

text \<open>The \<open>command\<close> branch from the print of the command on, with the two handlers;
  a print inside a handler is outside every \<open>try\<close>.\<close>

definition execute_command :: "env \<Rightarrow> world \<Rightarrow> json \<Rightarrow> (exn + execution_result) \<times> world" where
  "execute_command env w command =
     (case py_print env (ascii ''[EXEC] Running command: '' @ py_str env command) of
        Inl e \<Rightarrow> (Inl e, w)
      | Inr _ \<Rightarrow>
          (let w1 = log_event (Ran command) w in
           case command_try env w command of
             Inr r \<Rightarrow> (Inr r, w1)
           | Inl TimeoutExpired \<Rightarrow>
               (let timeout_error = ascii ''Command '' @ quoted (py_str env command)
                                    @ ascii '' timed out after 30 seconds.''
                in case py_print env timeout_error of
                     Inl e \<Rightarrow> (Inl e, w1)
                   | Inr _ \<Rightarrow> (Inr \<lparr>result = timeout_error\<rparr>, w1))
           | Inl e \<Rightarrow>
               (let exec_error = ascii ''An error occurred while executing command ''
                                 @ quoted (py_str env command) @ ascii '': '' @ str_exn env e
                in case py_print env exec_error of
                     Inl e' \<Rightarrow> (Inl e', w1)
                   | Inr _ \<Rightarrow> (Inr \<lparr>result = exec_error\<rparr>, w1))))"

text \<open>\<open>Path(file_path_str).resolve()\<close>: \<open>Path\<close> raises \<open>TypeError\<close> on a value that is
  not a str.\<close>

definition path_resolve :: "env \<Rightarrow> world \<Rightarrow> json \<Rightarrow> (exn + pystr) \<times> world" where
  "path_resolve env w file_path_str =
     (case file_path_str of
        JStr s \<Rightarrow> (resolve env w s, log_event (Resolved s) w)
      | _ \<Rightarrow> (Inl TypeError, w))"

text \<open>The end of the \<open>try\<close> block of the \<open>read_file\<close> branch: the success message, its
  print and the \<open>return\<close>.\<close>

definition read_file_success :: "env \<Rightarrow> pystr \<Rightarrow> pystr \<Rightarrow> exn + execution_result" where
  "read_file_success env file_path file_text =
     (let success_msg = ascii ''Successfully read file '' @ quoted file_path
                        @ ascii ''. Content:'' @ [10] @ file_text
      in case py_print env success_msg of
           Inl e \<Rightarrow> Inl e
         | Inr _ \<Rightarrow> Inr \<lparr>result = success_msg\<rparr>)"

text \<open>The \<open>try\<close> block of the \<open>read_file\<close> branch. The fallback to \<open>latin-1\<close> and the print
  of its warning stand in an inner \<open>try\<close> whose handler catches every exception.\<close>

definition read_file_try :: "env \<Rightarrow> world \<Rightarrow> pystr \<Rightarrow> (exn + execution_result) \<times> world" where
  "read_file_try env w file_path =
     (let w1 = log_event (Tested_is_file file_path) w in
      case is_file env w file_path of
        Inl e \<Rightarrow> (Inl e, w1)
      | Inr False \<Rightarrow>
          (Inr \<lparr>result = ascii ''File does not exist or is not a regular file: ''
                   @ file_path\<rparr>, w1)
      | Inr True \<Rightarrow>
          (let w2 = log_event (Read_text file_path (ascii ''utf-8'')) w1 in
           case read_text env w1 file_path (ascii ''utf-8'') of
             Inr file_text \<Rightarrow> (read_file_success env file_path file_text, w2)
           | Inl UnicodeDecodeError \<Rightarrow>
               (let w3 = log_event (Read_text file_path (ascii ''latin-1'')) w2;
                    could_not_read = \<lparr>result = ascii ''Could not read file '' @ file_path
                                        @ ascii '' with common encodings.''\<rparr>
                in case read_text env w2 file_path (ascii ''latin-1'') of
                     Inl e \<Rightarrow> (Inr could_not_read, w3)
                   | Inr file_text \<Rightarrow>
                       (case py_print env
                               (ascii ''[WARN] File '' @ file_path @ ascii '' was read with ''
                                @ quoted (ascii ''latin-1'')
                                @ ascii '' encoding due to UTF-8 decode error.'') of
                          Inl e \<Rightarrow> (Inr could_not_read, w3)
                        | Inr _ \<Rightarrow> (read_file_success env file_path file_text, w3)))
           | Inl e \<Rightarrow> (Inl e, w2)))"

text \<open>The \<open>read_file\<close> branch from the print of the resolved path on, with the two
  handlers of the \<open>try\<close> block.\<close>

definition execute_read_file :: "env \<Rightarrow> world \<Rightarrow> pystr \<Rightarrow> (exn + execution_result) \<times> world" where
  "execute_read_file env w file_path =
     (case py_print env (ascii ''[READ] Reading file: '' @ file_path) of
        Inl e \<Rightarrow> (Inl e, w)
      | Inr _ \<Rightarrow>
          (case read_file_try env w file_path of
             (Inl PermissionError, w') \<Rightarrow>
               (Inr \<lparr>result = ascii ''Permission denied when reading file: '' @ file_path\<rparr>, w')
           | (Inl e, w') \<Rightarrow>
               (Inr \<lparr>result = ascii ''An error occurred while reading file '' @ quoted file_path
                        @ ascii '': '' @ str_exn env e\<rparr>, w')
           | (Inr r, w') \<Rightarrow> (Inr r, w')))"

text \<open>The \<open>try\<close> block of the \<open>write_file\<close> branch. \<open>f.write\<close> raises \<open>TypeError\<close> on a
  content that is not a str, after the file has been opened (\<open>new_content\<close> is the
  source's \<open>content\<close>). The success message is printed inside the \<open>try\<close>.\<close>

definition write_file_try :: "env \<Rightarrow> world \<Rightarrow> pystr \<Rightarrow> json \<Rightarrow> (exn + execution_result) \<times> world" where
  "write_file_try env w file_path new_content =
     (let w1 = log_event (Made_parent_dirs file_path) w in
      case mkdir_parent env w file_path of
        Inl e \<Rightarrow> (Inl e, w1)
      | Inr _ \<Rightarrow>
          (let w2 = log_event (Opened_for_writing file_path) w1 in
           case open_w env w1 file_path of
             Inl e \<Rightarrow> (Inl e, w2)
           | Inr _ \<Rightarrow>
               (case new_content of
                  JStr s \<Rightarrow>
                    (let w3 = log_event (Wrote file_path s) w2 in
                     case write_text env w2 file_path s of
                       Inl e \<Rightarrow> (Inl e, w3)
                     | Inr _ \<Rightarrow>
                         (let success_msg = ascii ''Successfully wrote content to file ''
                                            @ quoted file_path @ ascii ''.''
                          in case py_print env success_msg of
                               Inl e \<Rightarrow> (Inl e, w3)
                             | Inr _ \<Rightarrow> (Inr \<lparr>result = success_msg\<rparr>, w3)))
                | _ \<Rightarrow> (Inl TypeError, w2))))"

text \<open>The \<open>write_file\<close> branch from the two prints of the path and of the content on,
  with the two handlers of the \<open>try\<close> block.\<close>

definition execute_write_file :: "env \<Rightarrow> world \<Rightarrow> pystr \<Rightarrow> json \<Rightarrow> (exn + execution_result) \<times> world" where
  "execute_write_file env w file_path new_content =
     (case py_print env (ascii ''[WRITE] Writing to file: '' @ file_path) of
        Inl e \<Rightarrow> (Inl e, w)
      | Inr _ \<Rightarrow>
          (case py_print env (ascii ''[WRITE] Content:'' @ [10] @ py_str env new_content) of
             Inl e \<Rightarrow> (Inl e, w)
           | Inr _ \<Rightarrow>
               (case write_file_try env w file_path new_content of
                  (Inl PermissionError, w') \<Rightarrow>
                    (Inr \<lparr>result = ascii ''Permission denied when writing file: ''
                             @ file_path\<rparr>, w')
                | (Inl e, w') \<Rightarrow>
                    (Inr \<lparr>result = ascii ''An error occurred while writing file ''
                             @ quoted file_path @ ascii '': '' @ str_exn env e\<rparr>, w')
                | (Inr r, w') \<Rightarrow> (Inr r, w'))))"

text \<open>The result of the \<open>write_file\<close> branch when the path or the content is missing.\<close>

definition no_path_or_content :: execution_result where
  "no_path_or_content = \<lparr>result = ascii ''No file path or content provided in action object.''\<rparr>"

text \<open>The line that \<open>_execute_action\<close> prints about every dict it is given, before it
  looks at the kind.\<close>

definition action_info :: "env \<Rightarrow> json \<Rightarrow> json \<Rightarrow> pystr" where
  "action_info env action_type explanation =
     [10] @ ascii ''[INFO] Action: '' @ py_str env action_type
     @ ascii ''. Reason: '' @ py_str env explanation"

text \<open>
  \<open>_execute_action\<close>. \<open>Inl e\<close> is the exception \<open>e\<close> leaving the function: the two calls
  of \<open>Path(...).resolve()\<close> and the prints of the branches stand outside every \<open>try\<close>.
\<close>

definition execute_action :: "env \<Rightarrow> world \<Rightarrow> json \<Rightarrow> (exn + execution_result) \<times> world" where
  "execute_action env w action_obj =
     (case action_obj of
        JDict d \<Rightarrow>
          (let action_type = dict_get d (ascii ''action'');
               explanation = dict_get_default d (ascii ''explanation'') (JStr [])
           in
           case py_print env (action_info env action_type explanation) of
             Inl e \<Rightarrow> (Inl e, w)
           | Inr _ \<Rightarrow>
           if action_type = JStr (ascii ''command'') then
             (let command = dict_get d (ascii ''command'') in
              if \<not> truthy command then
                (Inr \<lparr>result = ascii ''No command provided in action object.''\<rparr>, w)
              else execute_command env w command)
           else if action_type = JStr (ascii ''read_file'') then
             (let file_path_str = dict_get d (ascii ''path'') in
              if \<not> truthy file_path_str then
                (Inr \<lparr>result = ascii ''No file path provided in action object.''\<rparr>, w)
              else
                (case path_resolve env w file_path_str of
                   (Inl e, w1) \<Rightarrow> (Inl e, w1)
                 | (Inr file_path, w1) \<Rightarrow> execute_read_file env w1 file_path))
           else if action_type = JStr (ascii ''write_file'') then
             (let file_path_str = dict_get d (ascii ''path'');
                  new_content = dict_get d (ascii ''content'')
              in
              if \<not> truthy file_path_str \<or> new_content = JNull then (Inr no_path_or_content, w)
              else
                (case path_resolve env w file_path_str of
                   (Inl e, w1) \<Rightarrow> (Inl e, w1)
                 | (Inr file_path, w1) \<Rightarrow> execute_write_file env w1 file_path new_content))
           else if action_type = JStr (ascii ''speak'') then
             (let message = dict_get_default d (ascii ''message'') (JStr []) in
              case py_print env ([10] @ ascii ''[AGENT] '' @ py_str env message) of
                Inl e \<Rightarrow> (Inl e, w)
              | Inr _ \<Rightarrow> (Inr \<lparr>result = ascii ''Agent spoke: '' @ py_str env message\<rparr>, w))
           else
             (let unknown_action = ascii ''Unknown action type received: ''
                                   @ py_str env action_type
              in case py_print env (ascii ''[ERROR] '' @ unknown_action) of
                   Inl e \<Rightarrow> (Inl e, w)
                 | Inr _ \<Rightarrow> (Inr \<lparr>result = unknown_action\<rparr>, w)))
      | _ \<Rightarrow>
          (Inr \<lparr>result = ascii ''Action object is not a dictionary: '' @ py_str env action_obj\<rparr>,
           w))"

section \<open>Asking the model for the next action\<close>

text \<open>The dict \<open>{"action": "speak", "message": ..., "explanation": ...}\<close> that
  \<open>_call_model\<close> returns in place of a model answer.\<close>

definition speak :: "pystr \<Rightarrow> pystr \<Rightarrow> json" where
  "speak message explanation =
     JDict [(ascii ''action'', JStr (ascii ''speak'')),
            (ascii ''message'', JStr message),
            (ascii ''explanation'', JStr explanation)]"

text \<open>
  The Chinese literals of \<open>_call_model\<close>, as code points: the prefix of the message
  for a content that is not JSON (`the model returned an unexpected format: '), and the
  six explanations and messages (`parsing the model output failed', `the API returned an
  unexpected format.', `API response error', `API call failed', `an unknown error
  occurred', `the API call failed several times').
\<close>

definition unexpected_format_prefix :: pystr where
  "unexpected_format_prefix =
     [27169, 22411, 36820, 22238, 20102, 38750, 39044, 26399, 26684, 24335, 58, 32]"

definition parse_failed :: pystr where
  "parse_failed = [35299, 26512, 27169, 22411, 36755, 20986, 22833, 36133]"

definition api_unexpected_format :: pystr where
  "api_unexpected_format =
     [65, 80, 73, 36820, 22238, 20102, 24847, 22806, 30340, 26684, 24335, 12290]"

definition api_response_error :: pystr where
  "api_response_error = [65, 80, 73, 21709, 24212, 38169, 35823]"

definition api_call_failed :: pystr where
  "api_call_failed = [65, 80, 73, 35843, 29992, 22833, 36133]"

definition unknown_error :: pystr where
  "unknown_error = [21457, 29983, 26410, 30693, 38169, 35823]"

definition api_failed_repeatedly :: pystr where
  "api_failed_repeatedly = [65, 80, 73, 22810, 27425, 35843, 29992, 22833, 36133]"

text \<open>
  The \<open>payload\<close> of \<open>_call_model\<close> with its headers and URL. The system message is the
  prompt formatted with the working directory and the fixed date; the history and the
  new user prompt follow. \<open>os.getcwd()\<close> is taken to succeed.
\<close>

definition build_payload :: "env \<Rightarrow> agent \<Rightarrow> pystr \<Rightarrow> exn + request" where
  "build_payload env self prompt =
     (case format_text
             (map_of [(ascii ''working_dir'', getcwd env),
                      (ascii ''current_date'', ascii ''2025-12-10'')])
             (system_prompt self) of
        Inl e \<Rightarrow> Inl e
      | Inr system_content \<Rightarrow>
          Inr \<lparr>url = base_url self @ ascii ''/chat/completions'',
               authorization = ascii ''Bearer '' @ api_key self,
               model_name = ascii ''ecnu-plus'',
               messages =
                 [\<lparr>role = ascii ''system'', content = system_content\<rparr>]
                 @ session_history self
                 @ [\<lparr>role = ascii ''user'', content = prompt\<rparr>],
               temperature = 2 / 10\<rparr>)"

text \<open>\<open>response.raise_for_status()\<close>: an \<open>HTTPError\<close>, which carries the response, for
  a status from 400 to 599.\<close>

definition raise_for_status :: "response \<Rightarrow> exn + unit" where
  "raise_for_status r =
     (if 400 \<le> status_code r \<and> status_code r < 600
      then Inl (RequestException (Some (status_code r))) else Inr ())"

text \<open>The test for an upstream error, on a status code.\<close>

definition upstream_error :: "int \<Rightarrow> bool" where
  "upstream_error status \<longleftrightarrow> status = 504 \<or> (status \<ge> 500 \<and> status < 600)"

text \<open>
  The inner \<open>try\<close>: \<open>json.loads(content.strip())\<close> and the print of the parsed action,
  with the handler of \<open>json.JSONDecodeError\<close>, which prints the raw content and returns a
  \<open>speak\<close> action showing it. An exception of one of the prints leaves the inner \<open>try\<close>.
\<close>

definition parse_content :: "env \<Rightarrow> json \<Rightarrow> exn + json" where
  "parse_content env raw =
     (case py_strip raw of
        Inl e \<Rightarrow> Inl e
      | Inr stripped \<Rightarrow>
          (case json_loads env stripped of
             Inr action_json \<Rightarrow>
               (case py_print env (ascii ''[DEBUG] Parsed Action: '' @ py_str env action_json) of
                  Inl e \<Rightarrow> Inl e
                | Inr _ \<Rightarrow> Inr action_json)
           | Inl JSONDecodeError \<Rightarrow>
               (case py_print env
                       (ascii ''[ERROR] Model response is not valid JSON:'' @ [10]
                        @ py_str env raw @ [10] @ ascii ''Error: ''
                        @ str_exn env JSONDecodeError) of
                  Inl e \<Rightarrow> Inl e
                | Inr _ \<Rightarrow>
                    Inr (speak (unexpected_format_prefix @ py_str env raw) parse_failed))
           | Inl e \<Rightarrow> Inl e))"

text \<open>\<open>response_data['choices'][0]['message']['content']\<close>.\<close>

definition first_content :: "json \<Rightarrow> exn + json" where
  "first_content response_data =
     (case py_getitem response_data (ascii ''choices'') of
        Inl e \<Rightarrow> Inl e
      | Inr choices \<Rightarrow>
          (case py_first choices of
             Inl e \<Rightarrow> Inl e
           | Inr choice \<Rightarrow>
               (case py_getitem choice (ascii ''message'') of
                  Inl e \<Rightarrow> Inl e
                | Inr msg \<Rightarrow> py_getitem msg (ascii ''content''))))"

text \<open>The \<open>else\<close> branch for a response without choices: a print and a \<open>speak\<close> action.\<close>

definition unexpected_response :: "env \<Rightarrow> json \<Rightarrow> exn + json" where
  "unexpected_response env response_data =
     (case py_print env
             (ascii ''[ERROR] Unexpected API response format: '' @ py_str env response_data) of
        Inl e \<Rightarrow> Inl e
      | Inr _ \<Rightarrow> Inr (speak api_unexpected_format api_response_error))"

text \<open>The \<open>try\<close> block from the second \<open>response.raise_for_status()\<close> to its end, with
  its prints of the response and of the content: what it returns, or the exception that
  leaves it.\<close>

definition read_response :: "env \<Rightarrow> response \<Rightarrow> exn + json" where
  "read_response env r =
     (case raise_for_status r of
        Inl e \<Rightarrow> Inl e
      | Inr _ \<Rightarrow>
          (case json_body r of
             Inl e \<Rightarrow> Inl e
           | Inr response_data \<Rightarrow>
               (case py_print env (ascii ''[DEBUG] API Response: '' @ py_str env response_data) of
                  Inl e \<Rightarrow> Inl e
                | Inr _ \<Rightarrow>
               (case py_contains (ascii ''choices'') response_data of
                  Inl e \<Rightarrow> Inl e
                | Inr False \<Rightarrow> unexpected_response env response_data
                | Inr True \<Rightarrow>
                    (case py_getitem response_data (ascii ''choices'') of
                       Inl e \<Rightarrow> Inl e
                     | Inr choices \<Rightarrow>
                         (case py_len choices of
                            Inl e \<Rightarrow> Inl e
                          | Inr n \<Rightarrow>
                              if n > 0 then
                                (case first_content response_data of
                                   Inl e \<Rightarrow> Inl e
                                 | Inr raw \<Rightarrow>
                                     (case py_print env
                                             (ascii ''[DEBUG] Model Content: ''
                                              @ py_str env raw) of
                                        Inl e \<Rightarrow> Inl e
                                      | Inr _ \<Rightarrow> parse_content env raw))
                              else unexpected_response env response_data))))))"

text \<open>How one pass through the body of the \<open>for\<close> loop ends: \<open>continue\<close> or \<open>return\<close>.\<close>

datatype attempt_result = Continue | Return json

text \<open>\<open>time.sleep(backoff_factor * (2 ** attempt))\<close>.\<close>

definition sleep_backoff :: "nat \<Rightarrow> nat \<Rightarrow> world \<Rightarrow> world" where
  "sleep_backoff backoff_factor attempt w =
     w\<lparr>sleeps := sleeps w @ [backoff_factor * 2 ^ attempt]\<rparr>"

text \<open>The outer \<open>try\<close> block of one attempt.\<close>

definition attempt_try ::
  "env \<Rightarrow> world \<Rightarrow> request \<Rightarrow> nat \<Rightarrow> nat \<Rightarrow> nat \<Rightarrow> (exn + attempt_result) \<times> world" where
  "attempt_try env w payload max_retries backoff_factor attempt =
     (let w1 = w\<lparr>posts := posts w @ [payload]\<rparr> in
      case post env w payload of
        Inl e \<Rightarrow> (Inl e, w1)
      | Inr r \<Rightarrow>
          if upstream_error (status_code r) then
            (if int attempt < int max_retries - 1 then
               (Inr Continue, sleep_backoff backoff_factor attempt w1)
             else
               (case raise_for_status r of
                  Inl e \<Rightarrow> (Inl e, w1)
                | Inr _ \<Rightarrow> (map_sum id Return (read_response env r), w1)))
          else (map_sum id Return (read_response env r), w1))"

text \<open>One attempt with the handlers of \<open>RequestException\<close> and of \<open>Exception\<close>.\<close>

definition attempt_body ::
  "env \<Rightarrow> world \<Rightarrow> request \<Rightarrow> nat \<Rightarrow> nat \<Rightarrow> nat \<Rightarrow> attempt_result \<times> world" where
  "attempt_body env w payload max_retries backoff_factor attempt =
     (case attempt_try env w payload max_retries backoff_factor attempt of
        (Inr r, w1) \<Rightarrow> (r, w1)
      | (Inl (RequestException st), w1) \<Rightarrow>
          (let failed =
                 Return (speak (ascii ''API call failed: '' @ str_exn env (RequestException st))
                           api_call_failed)
           in case st of
                None \<Rightarrow> (failed, w1)
              | Some status \<Rightarrow>
                  if upstream_error status \<and> int attempt < int max_retries - 1
                  then (Continue, sleep_backoff backoff_factor attempt w1)
                  else (failed, w1))
      | (Inl e, w1) \<Rightarrow>
          (Return (speak (ascii ''An unexpected error occurred during API call: ''
                           @ str_exn env e) unknown_error), w1))"

text \<open>The \<open>for attempt in range(max_retries)\<close> loop, over the attempts still to make,
  and the \<open>return\<close> after it.\<close>

fun attempts ::
  "env \<Rightarrow> request \<Rightarrow> nat \<Rightarrow> nat \<Rightarrow> nat list \<Rightarrow> world \<Rightarrow> json \<times> world" where
  "attempts env payload max_retries backoff_factor [] w =
     (speak (ascii ''Failed to get a valid response from the API after ''
               @ nat_str max_retries @ ascii '' attempts.'') api_failed_repeatedly, w)"
| "attempts env payload max_retries backoff_factor (attempt # rest) w =
     (case attempt_body env w payload max_retries backoff_factor attempt of
        (Continue, w1) \<Rightarrow> attempts env payload max_retries backoff_factor rest w1
      | (Return action, w1) \<Rightarrow> (action, w1))"

text \<open>\<open>_call_model(prompt, max_retries, backoff_factor)\<close>.\<close>

definition call_model ::
  "env \<Rightarrow> agent \<Rightarrow> world \<Rightarrow> pystr \<Rightarrow> nat \<Rightarrow> nat \<Rightarrow> (exn + json) \<times> world" where
  "call_model env self w prompt max_retries backoff_factor =
     (case build_payload env self prompt of
        Inl e \<Rightarrow> (Inl e, w)
      | Inr payload \<Rightarrow>
          (case attempts env payload max_retries backoff_factor [0..<max_retries] w of
             (action, w1) \<Rightarrow> (Inr action, w1)))"

text \<open>
  When an attempt is made again: the answer is a response with an upstream status, or a
  \<open>RequestException\<close> that carries one, and the attempt is not the last. The world after
  \<open>i\<close> such attempts of one call: each has posted the payload and slept.
\<close>

definition retried :: "exn + response \<Rightarrow> bool" where
  "retried outcome =
     (case outcome of
        Inr r \<Rightarrow> upstream_error (status_code r)
      | Inl (RequestException (Some status)) \<Rightarrow> upstream_error status
      | Inl _ \<Rightarrow> False)"

fun world_after_retries :: "request \<Rightarrow> nat \<Rightarrow> nat \<Rightarrow> world \<Rightarrow> world" where
  "world_after_retries payload backoff_factor 0 w = w"
| "world_after_retries payload backoff_factor (Suc i) w =
     sleep_backoff backoff_factor i
       ((world_after_retries payload backoff_factor i w)
          \<lparr>posts := posts (world_after_retries payload backoff_factor i w) @ [payload]\<rparr>)"

section \<open>The main loop\<close>

definition max_steps_per_input :: nat where
  "max_steps_per_input = 10"

fun is_dict :: "json \<Rightarrow> bool" where
  "is_dict (JDict d) = True"
| "is_dict _ = False"

text \<open>\<open>action_to_take.get(key)\<close> and \<open>.get(key, default)\<close> on a value known to be a dict.\<close>

fun action_get :: "json \<Rightarrow> pystr \<Rightarrow> json \<Rightarrow> json" where
  "action_get (JDict d) key dflt = dict_get_default d key dflt"
| "action_get _ key dflt = dflt"

text \<open>
  The two entries that one Decide-Execute cycle appends to the history.
\<close>

definition assistant_turn :: "env \<Rightarrow> json \<Rightarrow> turn" where
  "assistant_turn env action_to_take =
     \<lparr>role = ascii ''assistant'', content = json_dumps (repr_value env) action_to_take\<rparr>"

definition result_turn :: "execution_result \<Rightarrow> turn" where
  "result_turn execution_result =
     \<lparr>role = ascii ''user'', content = ascii ''Action result:'' @ [10] @ result execution_result\<rparr>"

text \<open>
  The inner \<open>while step_count < max_steps_per_input\<close> loop for one user input, from the
  value \<open>step_count\<close> has at the loop test. It returns the exception that left the loop
  (if any), \<open>final_response\<close>, the agent and the world.
\<close>

function inner_loop ::
  "env \<Rightarrow> pystr \<Rightarrow> nat \<Rightarrow> agent \<Rightarrow> world \<Rightarrow> exn option \<times> json \<times> agent \<times> world" where
  "inner_loop env user_input step_count self w =
     (if step_count < max_steps_per_input then
        (case call_model env self w (if step_count + 1 = 1 then user_input else []) 3 1 of
           (Inl e, w1) \<Rightarrow> (Some e, JStr [], self, w1)
         | (Inr action_to_take, w1) \<Rightarrow>
             if \<not> is_dict action_to_take then
               (case py_print env (ascii ''[ERROR] Received invalid action object: ''
                                   @ py_str env action_to_take) of
                  Inl e \<Rightarrow> (Some e, JStr [], self, w1)
                | Inr _ \<Rightarrow> (None, JStr [], self, w1))
             else
               (case execute_action env w1 action_to_take of
                  (Inl e, w2) \<Rightarrow> (Some e, JStr [], self, w2)
                | (Inr execution_result, w2) \<Rightarrow>
                    (let self1 = self\<lparr>session_history := session_history self
                                   @ [assistant_turn env action_to_take]
                                   @ [result_turn execution_result]\<rparr>
                     in if action_get action_to_take (ascii ''action'') JNull
                             = JStr (ascii ''speak'')
                        then (None, action_get action_to_take (ascii ''message'') (JStr []),
                              self1, w2)
                        else inner_loop env user_input (step_count + 1)
                               (truncate_history self1) w2)))
      else (None, JStr [], self, w))"
  by pat_completeness auto
termination
  by (relation "measure (\<lambda>(env, user_input, step_count, self, w).
                  max_steps_per_input - step_count)") auto

declare inner_loop.simps [simp del]

text \<open>
  What \<open>input("User> ")\<close> gives: a line, or \<open>KeyboardInterrupt\<close>; at the end of the
  input it raises \<open>EOFError\<close>.
\<close>

datatype input_event = Line pystr | Interrupt

text \<open>\<open>user_input.lower() in ['exit', 'quit']\<close>: only the letters A to Z are lowered
  to the letters of the two keywords.\<close>

definition lower_char :: "nat \<Rightarrow> nat" where
  "lower_char c = (if 65 \<le> c \<and> c \<le> 90 then c + 32 else c)"

definition is_exit :: "pystr \<Rightarrow> bool" where
  "is_exit user_input \<longleftrightarrow> map lower_char user_input \<in> {ascii ''exit'', ascii ''quit''}"

text \<open>
  The outer \<open>while True\<close> loop of \<open>run\<close> over the inputs still to come. An exception out
  of the body, that of the print of the final response too, is caught by
  \<open>except Exception\<close>, which ends the loop.
\<close>

fun run_loop :: "env \<Rightarrow> input_event list \<Rightarrow> agent \<Rightarrow> world \<Rightarrow> agent \<times> world" where
  "run_loop env [] self w = (self, w)"
| "run_loop env (Interrupt # rest) self w = (self, w)"
| "run_loop env (Line raw # rest) self w =
     (let user_input = strip raw in
      if user_input = [] then run_loop env rest self w
      else if is_exit user_input then (self, w)
      else
        (let self1 = self\<lparr>session_history := session_history self
                       @ [\<lparr>role = ascii ''user'', content = user_input\<rparr>]\<rparr>
         in case inner_loop env user_input 0 self1 w of
              (Some e, final_response, self2, w2) \<Rightarrow> (self2, w2)
            | (None, final_response, self2, w2) \<Rightarrow>
                if truthy final_response then
                  (case py_print env ([10] @ ascii ''[FINAL AGENT RESPONSE] ''
                                      @ py_str env final_response) of
                     Inl e \<Rightarrow> (self2, w2)
                   | Inr _ \<Rightarrow> run_loop env rest self2 w2)
                else run_loop env rest self2 w2))"

definition new_world :: world where
  "new_world = \<lparr>posts = [], sleeps = [], os_events = []\<rparr>"

definition run :: "env \<Rightarrow> input_event list \<Rightarrow> agent \<Rightarrow> agent \<times> world" where
  "run env inputs self = run_loop env inputs self new_world"

section \<open>Sample inputs\<close>

text \<open>A history of one user turn whose content is 30000 times the letter \<open>a\<close>.\<close>

definition big_turn :: turn where
  "big_turn = \<lparr>role = ascii ''user'', content = replicate 30000 97\<rparr>"

text \<open>
  A sample environment around a given endpoint: the working directory is \<open>/root\<close>,
  paths resolve to themselves, no file exists, directories and files can be written, the
  shell cannot be started, and the standard output is UTF-8, which encodes every code
  point but the surrogates. \<open>sample_loads\<close> is \<open>json.loads\<close> on the texts the samples
  use: the serialized actions \<open>speak_hi\<close> and \<open>speak_surrogate\<close> (whose message is the
  lone surrogate that the escape \<open>\ud83d\<close> stands for), the list \<open>[1]\<close>, and a text
  that is not JSON.
\<close>

definition speak_hi :: json where
  "speak_hi = JDict [(ascii ''action'', JStr (ascii ''speak'')), (ascii ''message'', JStr (ascii ''hi''))]"

definition speak_surrogate :: json where
  "speak_surrogate =
     JDict [(ascii ''action'', JStr (ascii ''speak'')), (ascii ''message'', JStr [55357])]"

definition sample_loads :: "pystr \<Rightarrow> exn + json" where
  "sample_loads s =
     (if s = json_dumps (\<lambda>v. []) speak_hi then Inr speak_hi
      else if s = json_dumps (\<lambda>v. []) speak_surrogate then Inr speak_surrogate
      else if s = ascii ''[1]'' then Inr (JList [JInt 1])
      else Inl JSONDecodeError)"

definition sample_env :: "(world \<Rightarrow> request \<Rightarrow> exn + response) \<Rightarrow> env" where
  "sample_env endpoint =
     \<lparr>getcwd = ascii ''/root'',
      post = endpoint,
      subprocess_run = (\<lambda>w command. Inl (OtherException 0)),
      resolve = (\<lambda>w s. Inr s),
      is_file = (\<lambda>w p. Inr False),
      read_text = (\<lambda>w p encoding. Inl PermissionError),
      mkdir_parent = (\<lambda>w p. Inr ()),
      open_w = (\<lambda>w p. Inr ()),
      write_text = (\<lambda>w p s. Inr ()),
      json_loads = sample_loads,
      repr_value = (\<lambda>v. []),
      exn_message = (\<lambda>e. String.implode ''error''),
      stdout_encodes = (\<lambda>c. \<not> (55296 \<le> c \<and> c \<le> 57343))\<rparr>"

text \<open>A response with status 200 whose body has one choice with the given content, and
  the endpoints that always answer with it, that answer 503 to the first request and
  with it from the second on, and that always answer 503.\<close>

definition completion :: "pystr \<Rightarrow> response" where
  "completion reply =
     \<lparr>status_code = 200,
      json_body = Inr (JDict [(ascii ''choices'',
        JList [JDict [(ascii ''message'', JDict [(ascii ''content'', JStr reply)])]])])\<rparr>"

definition answers :: "pystr \<Rightarrow> world \<Rightarrow> request \<Rightarrow> exn + response" where
  "answers reply w req = Inr (completion reply)"

definition answers_second :: "pystr \<Rightarrow> world \<Rightarrow> request \<Rightarrow> exn + response" where
  "answers_second reply w req =
     (if posts w = [] then Inr \<lparr>status_code = 503, json_body = Inl JSONDecodeError\<rparr>
      else Inr (completion reply))"

definition unavailable :: "world \<Rightarrow> request \<Rightarrow> exn + response" where
  "unavailable w req = Inr \<lparr>status_code = 503, json_body = Inl JSONDecodeError\<rparr>"

text \<open>The part of a request that the budget is about: the length of the system message
  plus the serialized size of the history between it and the new user prompt.\<close>

definition context_chars :: "request \<Rightarrow> nat" where
  "context_chars req =
     (case messages req of
        [] \<Rightarrow> 0
      | system_message # rest \<Rightarrow> length (content system_message) + history_chars (butlast rest))"

section \<open>Literals\<close>

lemma ascii_eq_iff [simp]: "ascii a = ascii b \<longleftrightarrow> a = b"
  by (simp add: ascii_def inj_map_eq_map inj_on_def)

lemma ascii_Nil [simp]: "ascii [] = []"
  by (simp add: ascii_def)

lemma ascii_eq_Nil [simp]: "ascii s = [] \<longleftrightarrow> s = []"
  by (simp add: ascii_def)

lemma ascii_Cons: "ascii (c # s) = of_char c # ascii s"
  by (simp add: ascii_def)

text \<open>The serialization of a history entry is \<open>json.dumps\<close> of the dict it stands for.\<close>

lemma json_dumps_turn_eq:
  "json_dumps_turn item
   = json_dumps fr (JDict [(ascii ''role'', JStr (role item)), (ascii ''content'', JStr (content item))])"
  by (simp add: json_dumps_turn_def)

section \<open>Printing\<close>

text \<open>Which texts the standard output can encode: ASCII text, numbers and the text of
  an exception always, a text put together exactly when its parts are.\<close>

lemma encodable_Nil [simp]: "encodable env []"
  by (simp add: encodable_def)

lemma encodable_Cons [simp]:
  "encodable env (c # s) \<longleftrightarrow> (c < 128 \<or> stdout_encodes env c) \<and> encodable env s"
  by (simp add: encodable_def)

lemma encodable_append [simp]:
  "encodable env (a @ b) \<longleftrightarrow> encodable env a \<and> encodable env b"
  by (auto simp: encodable_def)

lemma of_char_less_128: "\<not> digit7 c \<Longrightarrow> (of_char c :: nat) < 128"
proof -
  assume "\<not> digit7 c"
  then have "String.ascii_of c = c"
    by (rule String.ascii_of_idem)
  then have "(of_char c :: nat) = take_bit 7 (of_char c)"
    by (metis String.char_of_ascii_of)
  also have "\<dots> < 2 ^ 7"
    by (rule take_bit_nat_less_exp)
  finally show ?thesis by simp
qed

lemma encodable_ascii: "list_all (\<lambda>c. \<not> digit7 c) s \<Longrightarrow> encodable env (ascii s)"
  by (induction s) (simp_all add: ascii_Cons of_char_less_128)

lemma encodable_str_exn [simp]: "encodable env (str_exn env e)"
proof -
  have "list_all (\<lambda>c. \<not> digit7 c) (String.explode (exn_message env e))"
    using String.explode [of "exn_message env e"] by (simp add: list_all_iff)
  then show ?thesis
    unfolding str_exn_def by (rule encodable_ascii)
qed

lemma encodable_nat_str [simp]: "encodable env (nat_str n)"
proof (induction n rule: nat_str.induct)
  case (1 n)
  show ?case
  proof (cases "n < 10")
    case True
    then show ?thesis by (subst nat_str.simps) simp
  next
    case False
    have "n mod 10 < 10" by simp
    then have "48 + n mod 10 < 128" by linarith
    with False "1.IH" show ?thesis by (subst nat_str.simps) simp
  qed
qed

lemma encodable_int_str [simp]: "encodable env (int_str i)"
  by (simp add: int_str_def)

lemma py_print_encodable: "encodable env s \<Longrightarrow> py_print env s = Inr ()"
  by (simp add: py_print_def)

lemma py_print_not_encodable: "\<not> encodable env s \<Longrightarrow> py_print env s = Inl UnicodeEncodeError"
  by (simp add: py_print_def)

lemma py_str_JStr [simp]: "py_str env (JStr s) = s"
  by (simp add: py_str_def)

text \<open>The line about the action can be printed exactly when the kind and the
  explanation can.\<close>

lemma encodable_action_info:
  "encodable env (action_info env action_type explanation)
   \<longleftrightarrow> encodable env (py_str env action_type) \<and> encodable env (py_str env explanation)"
  by (auto simp: action_info_def encodable_ascii)

section \<open>Truncation: suffix, budget, idempotence\<close>

lemma length_system_prompt_text: "length system_prompt_text = 706"
  by (simp add: system_prompt_text_def)

lemma truncate_loop_acc:
  "truncate_loop limit xs t acc = truncate_loop limit xs t [] @ acc"
proof (induction xs arbitrary: t acc)
  case Nil
  show ?case by simp
next
  case (Cons x xs)
  have "truncate_loop limit xs (t + length (json_dumps_turn x)) (x # acc)
        = truncate_loop limit xs (t + length (json_dumps_turn x)) [] @ x # acc"
    by (rule Cons.IH)
  moreover have "truncate_loop limit xs (t + length (json_dumps_turn x)) [x]
        = truncate_loop limit xs (t + length (json_dumps_turn x)) [] @ [x]"
    by (rule Cons.IH)
  ultimately show ?case by (simp add: Let_def)
qed

lemma truncate_loop_Cons:
  "truncate_loop limit (x # xs) t [] =
     (if t + length (json_dumps_turn x) > limit then []
      else truncate_loop limit xs (t + length (json_dumps_turn x)) [] @ [x])"
  using truncate_loop_acc [of limit xs "t + length (json_dumps_turn x)" "[x]"]
  by (simp add: Let_def)

declare truncate_loop.simps(2) [simp del]

lemma truncate_loop_take:
  "\<exists>k. truncate_loop limit xs t [] = rev (take k xs)"
proof (induction xs arbitrary: t)
  case Nil
  show ?case by simp
next
  case (Cons x xs)
  show ?case
  proof (cases "t + length (json_dumps_turn x) > limit")
    case True
    then have "truncate_loop limit (x # xs) t [] = rev (take 0 (x # xs))"
      by (simp add: truncate_loop_Cons)
    then show ?thesis by blast
  next
    case False
    from Cons.IH obtain k where
      "truncate_loop limit xs (t + length (json_dumps_turn x)) [] = rev (take k xs)"
      by blast
    with False have "truncate_loop limit (x # xs) t [] = rev (take (Suc k) (x # xs))"
      by (simp add: truncate_loop_Cons)
    then show ?thesis by blast
  qed
qed

lemma truncate_loop_suffix: "suffix (truncate_loop limit (rev h) t []) h"
proof -
  obtain k where "truncate_loop limit (rev h) t [] = rev (take k (rev h))"
    using truncate_loop_take by blast
  then have "truncate_loop limit (rev h) t [] = drop (length h - k) h"
    by (simp add: take_rev)
  then show ?thesis by (simp add: suffix_drop)
qed

lemma truncate_loop_bound:
  "t \<le> limit \<Longrightarrow> t + history_chars (truncate_loop limit xs t []) \<le> limit"
proof (induction xs arbitrary: t)
  case Nil
  then show ?case by (simp add: history_chars_def)
next
  case (Cons x xs)
  show ?case
  proof (cases "t + length (json_dumps_turn x) > limit")
    case True
    with Cons.prems show ?thesis by (simp add: truncate_loop_Cons history_chars_def)
  next
    case False
    then have "t + length (json_dumps_turn x) \<le> limit" by simp
    from Cons.IH [OF this] False show ?thesis
      by (simp add: truncate_loop_Cons history_chars_def)
  qed
qed

lemma truncate_loop_all:
  "t + history_chars xs \<le> limit \<Longrightarrow> truncate_loop limit xs t [] = rev xs"
proof (induction xs arbitrary: t)
  case Nil
  show ?case by simp
next
  case (Cons x xs)
  from Cons.prems have fits: "\<not> t + length (json_dumps_turn x) > limit"
    and rest: "(t + length (json_dumps_turn x)) + history_chars xs \<le> limit"
    by (simp_all add: history_chars_def)
  from Cons.IH [OF rest] fits show ?case by (simp add: truncate_loop_Cons)
qed

lemma truncate_loop_over: "t > limit \<Longrightarrow> truncate_loop limit xs t [] = []"
  by (cases xs) (simp_all add: truncate_loop_Cons)

lemma history_chars_rev: "history_chars (rev xs) = history_chars xs"
  by (simp add: history_chars_def rev_map [symmetric])

lemma truncate_loop_idem:
  "truncate_loop limit (rev (truncate_loop limit xs t [])) t [] = truncate_loop limit xs t []"
proof (cases "t \<le> limit")
  case True
  then have "t + history_chars (rev (truncate_loop limit xs t [])) \<le> limit"
    by (simp add: history_chars_rev truncate_loop_bound)
  then show ?thesis by (simp add: truncate_loop_all)
next
  case False
  then show ?thesis by (simp add: truncate_loop_over)
qed

text \<open>
  Claim C10: \<open>_truncate_history\<close> is idempotent. For every agent state, truncating
  twice leaves the same state as truncating once: the kept suffix already satisfies the
  accumulation bound, so the second pass keeps all of it.
\<close>

theorem truncate_history_idempotent:
  "truncate_history (truncate_history self) = truncate_history self"
  by (simp add: truncate_history_def truncate_loop_idem)

text \<open>
  Claim C3: for every conversation history \<open>h\<close> of the agent that \<open>__init__\<close> builds,
  \<open>_truncate_history\<close> leaves a contiguous suffix of \<open>h\<close> (only oldest turns are dropped,
  the order is unchanged), and the serialized lengths of the kept turns plus the length of
  the system prompt do not exceed the configured budget, which is 30000.
\<close>

theorem truncate_history_suffix_within_budget:
  "suffix (session_history (truncate_history ((init key)\<lparr>session_history := h\<rparr>))) h
   \<and> history_chars (session_history (truncate_history ((init key)\<lparr>session_history := h\<rparr>)))
       + length (system_prompt ((init key)\<lparr>session_history := h\<rparr>)) \<le> 30000
   \<and> max_context_length ((init key)\<lparr>session_history := h\<rparr>) = 30000"
proof -
  have "706 + history_chars (truncate_loop 30000 (rev h) 706 []) \<le> 30000"
    by (rule truncate_loop_bound) simp
  then show ?thesis
    by (simp add: truncate_history_def init_def length_system_prompt_text truncate_loop_suffix)
qed

lemma truncate_loop_nonempty_iff:
  "truncate_loop limit (rev h) t [] \<noteq> [] \<longleftrightarrow>
     h \<noteq> [] \<and> t + length (json_dumps_turn (last h)) \<le> limit"
proof (cases h rule: rev_cases)
  case Nil
  then show ?thesis by simp
next
  case (snoc ys y)
  then show ?thesis by (simp add: truncate_loop_Cons)
qed

text \<open>
  Claim C2, as the code has it: truncation leaves a non-empty history exactly when the
  history was non-empty and its most recent turn fits the budget together with the system
  prompt. A most recent turn that does not fit is dropped with everything older.
\<close>

theorem truncate_history_nonempty_iff:
  "session_history (truncate_history self) \<noteq> [] \<longleftrightarrow>
     session_history self \<noteq> []
     \<and> length (system_prompt self) + length (json_dumps_turn (last (session_history self)))
         \<le> max_context_length self"
  by (simp add: truncate_history_def truncate_loop_nonempty_iff)

lemma length_json_dumps_big_turn: "length (json_dumps_turn big_turn) = 30031"
  by (simp add: json_dumps_turn_def big_turn_def encode_basestring_ascii_def ascii_def
      escape_char_def length_concat sum_list_replicate)

text \<open>
  Claim C2 as stated fails: a history of one user turn of 30000 characters is non-empty,
  and truncation empties it.
\<close>

theorem truncate_history_drops_all_counterexample:
  "session_history ((init [])\<lparr>session_history := [big_turn]\<rparr>) \<noteq> []
   \<and> session_history (truncate_history ((init [])\<lparr>session_history := [big_turn]\<rparr>)) = []"
  by (simp add: truncate_history_def init_def length_system_prompt_text
      truncate_loop_Cons length_json_dumps_big_turn)

section \<open>The executor\<close>

text \<open>The results of the write branch all start with another letter than the result for
  a missing path or content.\<close>

lemma execute_write_file_not_missing:
  "fst (execute_write_file env w file_path new_content) \<noteq> Inr no_path_or_content"
  by (auto simp: execute_write_file_def write_file_try_def no_path_or_content_def Let_def
      ascii_Cons quoted_def
      split: prod.splits sum.splits exn.splits json.splits)

lemma execute_action_write_file:
  assumes "dict_get d (ascii ''action'') = JStr (ascii ''write_file'')"
    and "encodable env (py_str env (dict_get_default d (ascii ''explanation'') (JStr [])))"
  shows "execute_action env w (JDict d) =
     (if \<not> truthy (dict_get d (ascii ''path'')) \<or> dict_get d (ascii ''content'') = JNull
      then (Inr no_path_or_content, w)
      else (case path_resolve env w (dict_get d (ascii ''path'')) of
              (Inl e, w1) \<Rightarrow> (Inl e, w1)
            | (Inr file_path, w1) \<Rightarrow>
                execute_write_file env w1 file_path (dict_get d (ascii ''content''))))"
proof -
  have "encodable env (action_info env (JStr (ascii ''write_file''))
      (dict_get_default d (ascii ''explanation'') (JStr [])))"
    by (simp add: encodable_action_info assms(2) encodable_ascii)
  then have "py_print env (action_info env (JStr (ascii ''write_file''))
      (dict_get_default d (ascii ''explanation'') (JStr []))) = Inr ()"
    by (rule py_print_encodable)
  with assms(1) show ?thesis
    by (simp add: execute_action_def Let_def)
qed

text \<open>The line about the action is printed before the kind is looked at: when the
  standard output cannot encode the explanation, the print raises whatever the action
  is, and nothing has been done.\<close>

lemma execute_action_unprintable_explanation:
  assumes "\<not> encodable env (py_str env (dict_get_default d (ascii ''explanation'') (JStr [])))"
  shows "execute_action env w (JDict d) = (Inl UnicodeEncodeError, w)"
proof -
  from assms have "py_print env (action_info env (dict_get d (ascii ''action''))
      (dict_get_default d (ascii ''explanation'') (JStr []))) = Inl UnicodeEncodeError"
    by (simp add: py_print_not_encodable action_info_def)
  then show ?thesis
    by (simp add: execute_action_def Let_def)
qed

text \<open>What \<open>.get(key)\<close> being falsy, or being \<open>None\<close>, says about the field.\<close>

lemma not_truthy_iff:
  "\<not> truthy v \<longleftrightarrow> v \<in> {JNull, JBool False, JInt 0, JFloat 0, JStr [], JList [], JDict []}"
  by (cases v) auto

lemma dict_get_falsy_iff:
  "\<not> truthy (dict_get d key)
   \<longleftrightarrow> map_of d key \<in> {None, Some JNull, Some (JBool False), Some (JInt 0), Some (JFloat 0),
                         Some (JStr []), Some (JList []), Some (JDict [])}"
  by (cases "map_of d key") (auto simp: dict_get_def dict_get_default_def not_truthy_iff)

lemma dict_get_null_iff:
  "dict_get d key = JNull \<longleftrightarrow> map_of d key \<in> {None, Some JNull}"
  by (cases "map_of d key") (auto simp: dict_get_def dict_get_default_def)

lemma dict_get_Some: "map_of d key = Some v \<Longrightarrow> dict_get d key = v"
  by (simp add: dict_get_def dict_get_default_def)

text \<open>
  Claim C9, as the code has it by design: on a dict whose \<open>action\<close> is \<open>write_file\<close> and
  whose explanation the standard output can encode (so that the line printed about
  every action does not raise), \<open>_execute_action\<close> returns the missing-field result
  exactly when the \<open>path\<close> field is absent or falsy (\<open>None\<close>, \<open>False\<close>, the integer or
  float zero, the empty string, list or dict) or the \<open>content\<close> field is absent or
  \<open>None\<close>. A content equal to the empty string is accepted: with a non-empty path string
  that resolves, the call is the write branch run on the resolved path with the empty
  content.
\<close>

theorem write_file_missing_field_iff:
  assumes "map_of d (ascii ''action'') = Some (JStr (ascii ''write_file''))"
    and "encodable env (py_str env (dict_get_default d (ascii ''explanation'') (JStr [])))"
  shows "(fst (execute_action env w (JDict d)) = Inr no_path_or_content
           \<longleftrightarrow> map_of d (ascii ''path'')
                 \<in> {None, Some JNull, Some (JBool False), Some (JInt 0), Some (JFloat 0),
                     Some (JStr []), Some (JList []), Some (JDict [])}
               \<or> map_of d (ascii ''content'') \<in> {None, Some JNull})
         \<and> (\<forall>p file_path. map_of d (ascii ''path'') = Some (JStr p) \<and> p \<noteq> []
               \<and> map_of d (ascii ''content'') = Some (JStr []) \<and> resolve env w p = Inr file_path
             \<longrightarrow> execute_action env w (JDict d)
                   = execute_write_file env (log_event (Resolved p) w) file_path (JStr []))"
proof -
  from assms(1) have kind: "dict_get d (ascii ''action'') = JStr (ascii ''write_file'')"
    by (rule dict_get_Some)
  note unfold = execute_action_write_file [OF kind assms(2)]
  have "fst (case path_resolve env w (dict_get d (ascii ''path'')) of
              (Inl e, w1) \<Rightarrow> (Inl e, w1)
            | (Inr file_path, w1) \<Rightarrow>
                execute_write_file env w1 file_path (dict_get d (ascii ''content'')))
        \<noteq> Inr no_path_or_content"
    by (simp add: execute_write_file_not_missing split: prod.splits sum.splits)
  then have "fst (execute_action env w (JDict d)) = Inr no_path_or_content
           \<longleftrightarrow> \<not> truthy (dict_get d (ascii ''path'')) \<or> dict_get d (ascii ''content'') = JNull"
    by (simp add: unfold)
  then have first: "fst (execute_action env w (JDict d)) = Inr no_path_or_content
           \<longleftrightarrow> map_of d (ascii ''path'')
                 \<in> {None, Some JNull, Some (JBool False), Some (JInt 0), Some (JFloat 0),
                     Some (JStr []), Some (JList []), Some (JDict [])}
               \<or> map_of d (ascii ''content'') \<in> {None, Some JNull}"
    by (simp only: dict_get_falsy_iff dict_get_null_iff)
  have second: "execute_action env w (JDict d)
                   = execute_write_file env (log_event (Resolved p) w) file_path (JStr [])"
    if "map_of d (ascii ''path'') = Some (JStr p)" "p \<noteq> []"
      "map_of d (ascii ''content'') = Some (JStr [])" "resolve env w p = Inr file_path"
    for p file_path
    using that by (simp add: unfold path_resolve_def dict_get_Some)
  from first second show ?thesis by blast
qed

text \<open>
  An instance: in the sample environment, writing the empty string to \<open>/tmp/x\<close> is
  not refused; the path is resolved, the parent directories are made, the file is opened
  and the empty content is written.
\<close>

theorem write_file_missing_field_iff_witness:
  "map_of [(ascii ''action'', JStr (ascii ''write_file'')), (ascii ''path'', JStr (ascii ''/tmp/x'')),
           (ascii ''content'', JStr [])] (ascii ''action'') = Some (JStr (ascii ''write_file''))
   \<and> encodable (sample_env unavailable) (py_str (sample_env unavailable)
        (dict_get_default [(ascii ''action'', JStr (ascii ''write_file'')),
           (ascii ''path'', JStr (ascii ''/tmp/x'')), (ascii ''content'', JStr [])]
           (ascii ''explanation'') (JStr [])))
   \<and> fst (execute_action (sample_env unavailable) new_world
        (JDict [(ascii ''action'', JStr (ascii ''write_file'')),
                (ascii ''path'', JStr (ascii ''/tmp/x'')), (ascii ''content'', JStr [])]))
       \<noteq> Inr no_path_or_content
   \<and> execute_action (sample_env unavailable) new_world
        (JDict [(ascii ''action'', JStr (ascii ''write_file'')),
                (ascii ''path'', JStr (ascii ''/tmp/x'')), (ascii ''content'', JStr [])])
       = (Inr \<lparr>result = ascii ''Successfully wrote content to file '' @ quoted (ascii ''/tmp/x'')
                  @ ascii ''.''\<rparr>,
          \<lparr>posts = [], sleeps = [],
           os_events = [Resolved (ascii ''/tmp/x''), Made_parent_dirs (ascii ''/tmp/x''),
                        Opened_for_writing (ascii ''/tmp/x''), Wrote (ascii ''/tmp/x'') []]\<rparr>)"
proof -
  let ?d = "[(ascii ''action'', JStr (ascii ''write_file'')), (ascii ''path'', JStr (ascii ''/tmp/x'')),
             (ascii ''content'', JStr [])]"
  have kind: "map_of ?d (ascii ''action'') = Some (JStr (ascii ''write_file''))"
    by simp
  have expl: "encodable (sample_env unavailable) (py_str (sample_env unavailable)
        (dict_get_default ?d (ascii ''explanation'') (JStr [])))"
    by (simp add: dict_get_default_def)
  have written: "execute_write_file (sample_env unavailable)
        (log_event (Resolved (ascii ''/tmp/x'')) new_world) (ascii ''/tmp/x'') (JStr [])
       = (Inr \<lparr>result = ascii ''Successfully wrote content to file '' @ quoted (ascii ''/tmp/x'')
                  @ ascii ''.''\<rparr>,
          \<lparr>posts = [], sleeps = [],
           os_events = [Resolved (ascii ''/tmp/x''), Made_parent_dirs (ascii ''/tmp/x''),
                        Opened_for_writing (ascii ''/tmp/x''), Wrote (ascii ''/tmp/x'') []]\<rparr>)"
    by (simp add: execute_write_file_def write_file_try_def py_print_def encodable_ascii
        quoted_def sample_env_def new_world_def log_event_def Let_def)
  have res: "resolve (sample_env unavailable) new_world (ascii ''/tmp/x'') = Inr (ascii ''/tmp/x'')"
    by (simp add: sample_env_def)
  from write_file_missing_field_iff [OF kind expl, of new_world] res written
  have run: "execute_action (sample_env unavailable) new_world (JDict ?d)
       = (Inr \<lparr>result = ascii ''Successfully wrote content to file '' @ quoted (ascii ''/tmp/x'')
                  @ ascii ''.''\<rparr>,
          \<lparr>posts = [], sleeps = [],
           os_events = [Resolved (ascii ''/tmp/x''), Made_parent_dirs (ascii ''/tmp/x''),
                        Opened_for_writing (ascii ''/tmp/x''), Wrote (ascii ''/tmp/x'') []]\<rparr>)"
    by simp
  then have "fst (execute_action (sample_env unavailable) new_world (JDict ?d))
      \<noteq> Inr no_path_or_content"
    by (simp add: no_path_or_content_def ascii_Cons)
  with kind expl run show ?thesis by blast
qed

text \<open>
  Claim C9 as stated fails: with the path \<open>0\<close>, which is present and is not the empty
  string, and a content that is present, the missing-field result is returned.
\<close>

theorem write_file_zero_path_counterexample:
  "fst (execute_action (sample_env unavailable) new_world
        (JDict [(ascii ''action'', JStr (ascii ''write_file'')), (ascii ''path'', JInt 0),
                (ascii ''content'', JStr (ascii ''x''))]))
     = Inr no_path_or_content
   \<and> map_of [(ascii ''action'', JStr (ascii ''write_file'')), (ascii ''path'', JInt 0),
              (ascii ''content'', JStr (ascii ''x''))] (ascii ''path'') = Some (JInt 0)
   \<and> map_of [(ascii ''action'', JStr (ascii ''write_file'')), (ascii ''path'', JInt 0),
              (ascii ''content'', JStr (ascii ''x''))] (ascii ''content'') = Some (JStr (ascii ''x''))"
proof -
  let ?d = "[(ascii ''action'', JStr (ascii ''write_file'')), (ascii ''path'', JInt 0),
             (ascii ''content'', JStr (ascii ''x''))]"
  have "execute_action (sample_env unavailable) new_world (JDict ?d)
      = (Inr no_path_or_content, new_world)"
    by (subst execute_action_write_file)
       (simp_all add: dict_get_def dict_get_default_def)
  then show ?thesis by simp
qed

text \<open>
  Claim C1 fails on the code: for a \<open>read_file\<close> or \<open>write_file\<close> action whose path is the
  number 123, \<open>Path(123)\<close> raises \<open>TypeError\<close> outside every \<open>try\<close>, and the exception
  leaves \<open>_execute_action\<close>, whatever the environment does.
\<close>

theorem execute_action_path_not_str_raises:
  "fst (execute_action env w
          (JDict [(ascii ''action'', JStr (ascii ''read_file'')), (ascii ''path'', JInt 123)]))
     = Inl TypeError
   \<and> fst (execute_action env w
          (JDict [(ascii ''action'', JStr (ascii ''write_file'')), (ascii ''path'', JInt 123),
                  (ascii ''content'', JStr (ascii ''x''))]))
     = Inl TypeError"
proof -
  have "py_print env (action_info env (JStr (ascii ''read_file'')) (JStr [])) = Inr ()"
    "py_print env (action_info env (JStr (ascii ''write_file'')) (JStr [])) = Inr ()"
    by (simp_all add: py_print_encodable encodable_action_info encodable_ascii)
  then show ?thesis
    by (simp add: execute_action_def dict_get_def dict_get_default_def path_resolve_def)
qed

text \<open>An instance in the sample environment, from an untouched world.\<close>

theorem execute_action_path_not_str_raises_witness:
  "fst (execute_action (sample_env unavailable) new_world
          (JDict [(ascii ''action'', JStr (ascii ''read_file'')), (ascii ''path'', JInt 123)]))
     = Inl TypeError
   \<and> fst (execute_action (sample_env unavailable) new_world
          (JDict [(ascii ''action'', JStr (ascii ''write_file'')), (ascii ''path'', JInt 123),
                  (ascii ''content'', JStr (ascii ''x''))]))
     = Inl TypeError"
  using execute_action_path_not_str_raises [of "sample_env unavailable" new_world]
  by simp

section \<open>The request and the retry loop\<close>

lemma format_system_prompt_text:
  "\<exists>s. format_text (map_of [(ascii ''working_dir'', wd), (ascii ''current_date'', d)])
         system_prompt_text = Inr s"
  by (simp add: system_prompt_text_def ascii_def)

lemma build_payload_init:
  "\<exists>system_content.
     build_payload env ((init key)\<lparr>session_history := h\<rparr>) prompt =
       Inr \<lparr>url = ascii ''https://chat.ecnu.edu.cn/open/api/v1'' @ ascii ''/chat/completions'',
            authorization = ascii ''Bearer '' @ key,
            model_name = ascii ''ecnu-plus'',
            messages = [\<lparr>role = ascii ''system'', content = system_content\<rparr>] @ h
                       @ [\<lparr>role = ascii ''user'', content = prompt\<rparr>],
            temperature = 2 / 10\<rparr>"
proof -
  obtain s where "format_text (map_of [(ascii ''working_dir'', getcwd env),
      (ascii ''current_date'', ascii ''2025-12-10'')]) system_prompt_text = Inr s"
    using format_system_prompt_text by blast
  then show ?thesis by (simp add: build_payload_def init_def)
qed

text \<open>A completion whose response and content can be printed is read down to the
  inner \<open>try\<close>.\<close>

lemma read_response_completion:
  assumes "\<not> (400 \<le> status_code r \<and> status_code r < 600)"
    and "json_body r = Inr (JDict d)"
    and "map_of d (ascii ''choices'') = Some (JList (JDict c # cs))"
    and "map_of c (ascii ''message'') = Some (JDict m)"
    and "map_of m (ascii ''content'') = Some raw"
    and "encodable env (py_str env (JDict d))"
    and "encodable env (py_str env raw)"
  shows "read_response env r = parse_content env raw"
proof -
  from assms(1) have "raise_for_status r = Inr ()"
    by (auto simp: raise_for_status_def)
  moreover from assms(6)
  have "py_print env (ascii ''[DEBUG] API Response: '' @ py_str env (JDict d)) = Inr ()"
    by (simp add: py_print_encodable encodable_ascii)
  moreover from assms(7)
  have "py_print env (ascii ''[DEBUG] Model Content: '' @ py_str env raw) = Inr ()"
    by (simp add: py_print_encodable encodable_ascii)
  ultimately show ?thesis
    using assms(2-5) by (simp add: read_response_def first_content_def)
qed

text \<open>The inner \<open>try\<close> on a content that can be printed.\<close>

lemma parse_content_not_json:
  assumes "json_loads env (strip raw) = Inl JSONDecodeError" and "encodable env raw"
  shows "parse_content env (JStr raw)
         = Inr (speak (unexpected_format_prefix @ raw) parse_failed)"
proof -
  from assms(2)
  have "py_print env (ascii ''[ERROR] Model response is not valid JSON:'' @ [10]
          @ py_str env (JStr raw) @ [10] @ ascii ''Error: '' @ str_exn env JSONDecodeError)
        = Inr ()"
    by (simp add: py_print_encodable encodable_ascii)
  with assms(1) show ?thesis
    by (simp add: parse_content_def)
qed

lemma parse_content_json:
  assumes "json_loads env (strip raw) = Inr v" and "encodable env (py_str env v)"
  shows "parse_content env (JStr raw) = Inr v"
proof -
  from assms(2) have "py_print env (ascii ''[DEBUG] Parsed Action: '' @ py_str env v) = Inr ()"
    by (simp add: py_print_encodable encodable_ascii)
  with assms(1) show ?thesis
    by (simp add: parse_content_def)
qed

text \<open>An attempt that is made again posts the payload and sleeps; a call whose first
  \<open>k\<close> attempts are made again goes on from the world after them.\<close>

lemma attempt_body_retried:
  assumes "retried (post env w payload)" and "int attempt < int max_retries - 1"
  shows "attempt_body env w payload max_retries backoff_factor attempt
         = (Continue, sleep_backoff backoff_factor attempt (w\<lparr>posts := posts w @ [payload]\<rparr>))"
proof (cases "post env w payload")
  case (Inr r)
  with assms show ?thesis
    by (simp add: retried_def attempt_body_def attempt_try_def)
next
  case (Inl e)
  with assms(1) obtain status where "e = RequestException (Some status)"
    "upstream_error status"
    by (auto simp: retried_def split: exn.splits option.splits)
  with Inl assms(2) show ?thesis
    by (simp add: attempt_body_def attempt_try_def)
qed

lemma attempts_retried:
  assumes "\<forall>i<k. retried (post env (world_after_retries payload backoff_factor i w) payload)"
    and "k < max_retries"
  shows "attempts env payload max_retries backoff_factor [0..<max_retries] w
         = attempts env payload max_retries backoff_factor [k..<max_retries]
             (world_after_retries payload backoff_factor k w)"
  using assms
proof (induction k)
  case 0
  show ?case by simp
next
  case (Suc k)
  then have IH: "attempts env payload max_retries backoff_factor [0..<max_retries] w
         = attempts env payload max_retries backoff_factor [k..<max_retries]
             (world_after_retries payload backoff_factor k w)"
    by simp
  from Suc.prems have again: "retried (post env (world_after_retries payload backoff_factor k w) payload)"
    and more: "int k < int max_retries - 1"
    by simp_all
  from Suc.prems(2) have upt: "[k..<max_retries] = k # [Suc k..<max_retries]"
    by (simp add: upt_conv_Cons)
  show ?case
    unfolding IH upt
    by (simp add: attempt_body_retried [OF again more])
qed

lemma call_model_attempt:
  assumes "build_payload env self prompt = Inr payload"
    and "k < max_retries"
    and "\<forall>i<k. retried (post env (world_after_retries payload backoff_factor i w) payload)"
    and "post env (world_after_retries payload backoff_factor k w) payload = Inr r"
    and "\<not> (400 \<le> status_code r \<and> status_code r < 600)"
    and "read_response env r = Inr action"
  shows "call_model env self w prompt max_retries backoff_factor
         = (Inr action,
            (world_after_retries payload backoff_factor k w)
              \<lparr>posts := posts (world_after_retries payload backoff_factor k w) @ [payload]\<rparr>)"
proof -
  let ?w = "world_after_retries payload backoff_factor k w"
  from assms(5) have ok: "\<not> upstream_error (status_code r)"
    by (auto simp: upstream_error_def)
  from assms(2) have upt: "[k..<max_retries] = k # [Suc k..<max_retries]"
    by (simp add: upt_conv_Cons)
  have "attempt_try env ?w payload max_retries backoff_factor k
        = (Inr (Return action), ?w\<lparr>posts := posts ?w @ [payload]\<rparr>)"
    using assms(4,6) ok by (simp add: attempt_try_def)
  then have "attempt_body env ?w payload max_retries backoff_factor k
        = (Return action, ?w\<lparr>posts := posts ?w @ [payload]\<rparr>)"
    by (simp add: attempt_body_def)
  then have "attempts env payload max_retries backoff_factor [0..<max_retries] w
        = (action, ?w\<lparr>posts := posts ?w @ [payload]\<rparr>)"
    by (simp add: attempts_retried [OF assms(3,2)] upt)
  then show ?thesis
    using assms(1) by (simp add: call_model_def)
qed

text \<open>A completion whose content the standard output cannot encode: the print of the
  content raises inside the outer \<open>try\<close>, before \<open>json.loads\<close> is called, and the handler
  of \<open>Exception\<close> answers with its own \<open>speak\<close> action, which does not show the content.\<close>

lemma read_response_unprintable_content:
  assumes "\<not> (400 \<le> status_code r \<and> status_code r < 600)"
    and "json_body r = Inr (JDict d)"
    and "map_of d (ascii ''choices'') = Some (JList (JDict c # cs))"
    and "map_of c (ascii ''message'') = Some (JDict m)"
    and "map_of m (ascii ''content'') = Some raw"
    and "encodable env (py_str env (JDict d))"
    and "\<not> encodable env (py_str env raw)"
  shows "read_response env r = Inl UnicodeEncodeError"
proof -
  from assms(1) have "raise_for_status r = Inr ()"
    by (auto simp: raise_for_status_def)
  moreover from assms(6)
  have "py_print env (ascii ''[DEBUG] API Response: '' @ py_str env (JDict d)) = Inr ()"
    by (simp add: py_print_encodable encodable_ascii)
  moreover from assms(7)
  have "py_print env (ascii ''[DEBUG] Model Content: '' @ py_str env raw)
        = Inl UnicodeEncodeError"
    by (simp add: py_print_not_encodable)
  ultimately show ?thesis
    using assms(2-5) by (simp add: read_response_def first_content_def)
qed

lemma call_model_content_unprintable:
  assumes "build_payload env self prompt = Inr payload"
    and "k < max_retries"
    and "\<forall>i<k. retried (post env (world_after_retries payload backoff_factor i w) payload)"
    and "post env (world_after_retries payload backoff_factor k w) payload = Inr r"
    and "\<not> (400 \<le> status_code r \<and> status_code r < 600)"
    and "json_body r = Inr (JDict d)"
    and "map_of d (ascii ''choices'') = Some (JList (JDict c # cs))"
    and "map_of c (ascii ''message'') = Some (JDict m)"
    and "map_of m (ascii ''content'') = Some (JStr raw)"
    and "encodable env (py_str env (JDict d))"
    and "\<not> encodable env raw"
  shows "call_model env self w prompt max_retries backoff_factor
         = (Inr (speak (ascii ''An unexpected error occurred during API call: ''
                        @ str_exn env UnicodeEncodeError) unknown_error),
            (world_after_retries payload backoff_factor k w)
              \<lparr>posts := posts (world_after_retries payload backoff_factor k w) @ [payload]\<rparr>)"
proof -
  let ?w = "world_after_retries payload backoff_factor k w"
  from assms(11) have "\<not> encodable env (py_str env (JStr raw))"
    by simp
  with assms(5-10) have rr: "read_response env r = Inl UnicodeEncodeError"
    by (rule read_response_unprintable_content)
  from assms(5) have ok: "\<not> upstream_error (status_code r)"
    by (auto simp: upstream_error_def)
  from assms(2) have upt: "[k..<max_retries] = k # [Suc k..<max_retries]"
    by (simp add: upt_conv_Cons)
  have "attempt_try env ?w payload max_retries backoff_factor k
        = (Inl UnicodeEncodeError, ?w\<lparr>posts := posts ?w @ [payload]\<rparr>)"
    using assms(4) rr ok by (simp add: attempt_try_def)
  then have "attempt_body env ?w payload max_retries backoff_factor k
        = (Return (speak (ascii ''An unexpected error occurred during API call: ''
                          @ str_exn env UnicodeEncodeError) unknown_error),
           ?w\<lparr>posts := posts ?w @ [payload]\<rparr>)"
    by (simp add: attempt_body_def)
  then have "attempts env payload max_retries backoff_factor [0..<max_retries] w
        = (speak (ascii ''An unexpected error occurred during API call: ''
                  @ str_exn env UnicodeEncodeError) unknown_error,
           ?w\<lparr>posts := posts ?w @ [payload]\<rparr>)"
    by (simp add: attempts_retried [OF assms(3,2)] upt)
  then show ?thesis
    using assms(1) by (simp add: call_model_def)
qed

lemma call_model_first_attempt:
  assumes "build_payload env self prompt = Inr payload"
    and "0 < max_retries"
    and "post env w payload = Inr r"
    and "\<not> (400 \<le> status_code r \<and> status_code r < 600)"
    and "read_response env r = Inr action"
  shows "call_model env self w prompt max_retries backoff_factor
         = (Inr action, w\<lparr>posts := posts w @ [payload]\<rparr>)"
  using call_model_attempt [where k = 0, OF assms(1,2) _ _ assms(4,5)] assms(3)
  by simp

lemma init_no_history [simp]: "(init key)\<lparr>session_history := []\<rparr> = init key"
  by (simp add: init_def)

lemma strip_plain: "s \<noteq> [] \<Longrightarrow> \<not> isspace (hd s) \<Longrightarrow> \<not> isspace (last s) \<Longrightarrow> strip s = s"
proof -
  assume a: "s \<noteq> []" "\<not> isspace (hd s)" "\<not> isspace (last s)"
  then have "dropWhile isspace s = s"
    by (simp add: dropWhile_eq_self_iff)
  moreover from a have "dropWhile isspace (rev s) = rev s"
    by (simp add: dropWhile_eq_self_iff hd_rev)
  ultimately show ?thesis by (simp add: strip_def)
qed

text \<open>The sample endpoints. In the sample environment a dict is printed as the empty
  text, so a completion is read exactly when its content can be printed.\<close>

lemma call_model_sample:
  assumes "read_response (sample_env (answers reply)) (completion reply) = Inr action"
  shows "\<exists>payload.
     build_payload (sample_env (answers reply)) ((init key)\<lparr>session_history := h\<rparr>) prompt = Inr payload
     \<and> call_model (sample_env (answers reply)) ((init key)\<lparr>session_history := h\<rparr>) new_world prompt 3 1
         = (Inr action, new_world\<lparr>posts := [payload]\<rparr>)"
proof -
  obtain payload where p: "build_payload (sample_env (answers reply))
      ((init key)\<lparr>session_history := h\<rparr>) prompt = Inr payload"
    using build_payload_init by blast
  have "call_model (sample_env (answers reply)) ((init key)\<lparr>session_history := h\<rparr>)
      new_world prompt 3 1 = (Inr action, new_world\<lparr>posts := posts new_world @ [payload]\<rparr>)"
    using p _ _ _ assms
    by (rule call_model_first_attempt) (simp_all add: sample_env_def answers_def completion_def)
  with p show ?thesis by (simp add: new_world_def)
qed

lemma read_response_sample:
  assumes "encodable (sample_env p) reply"
  shows "read_response (sample_env p) (completion reply)
         = parse_content (sample_env p) (JStr reply)"
proof (rule read_response_completion)
  show "\<not> (400 \<le> status_code (completion reply) \<and> status_code (completion reply) < 600)"
    by (simp add: completion_def)
  show "json_body (completion reply) = Inr (JDict [(ascii ''choices'',
          JList [JDict [(ascii ''message'', JDict [(ascii ''content'', JStr reply)])]])])"
    by (simp add: completion_def)
  show "map_of [(ascii ''choices'',
          JList [JDict [(ascii ''message'', JDict [(ascii ''content'', JStr reply)])]])]
        (ascii ''choices'')
        = Some (JList (JDict [(ascii ''message'', JDict [(ascii ''content'', JStr reply)])] # []))"
    by simp
  show "map_of [(ascii ''message'', JDict [(ascii ''content'', JStr reply)])] (ascii ''message'')
        = Some (JDict [(ascii ''content'', JStr reply)])"
    by simp
  show "map_of [(ascii ''content'', JStr reply)] (ascii ''content'') = Some (JStr reply)"
    by simp
  show "encodable (sample_env p) (py_str (sample_env p) (JDict [(ascii ''choices'',
          JList [JDict [(ascii ''message'', JDict [(ascii ''content'', JStr reply)])]])]))"
    by (simp add: py_str_def sample_env_def)
  show "encodable (sample_env p) (py_str (sample_env p) (JStr reply))"
    using assms by simp
qed

text \<open>
  Claim C5, as the code has it by design. In one call of \<open>_call_model\<close>, after any number
  \<open>k\<close> of attempts that were made again, a completion arrives with a status outside 400
  to 599 and a first choice whose message content is the string \<open>raw\<close>, and the standard
  output can encode the response and the content that the call prints. If \<open>json.loads\<close>
  rejects the stripped content with \<open>JSONDecodeError\<close>, the call returns the \<open>speak\<close>
  action whose message is the fixed prefix followed by the raw content and whose
  explanation says that parsing failed. If \<open>json.loads\<close> accepts it and the parsed value
  can be printed, that value is returned as it is, whatever its shape. Nothing is raised
  in either case, and the payload has been posted \<open>k + 1\<close> times.
\<close>

theorem call_model_content_not_json:
  assumes "build_payload env ((init key)\<lparr>session_history := h\<rparr>) prompt = Inr payload"
    and "k < max_retries"
    and "\<forall>i<k. retried (post env (world_after_retries payload backoff_factor i w) payload)"
    and "post env (world_after_retries payload backoff_factor k w) payload = Inr r"
    and "\<not> (400 \<le> status_code r \<and> status_code r < 600)"
    and "json_body r = Inr (JDict d)"
    and "map_of d (ascii ''choices'') = Some (JList (JDict c # cs))"
    and "map_of c (ascii ''message'') = Some (JDict m)"
    and "map_of m (ascii ''content'') = Some (JStr raw)"
    and "encodable env (py_str env (JDict d))"
    and "encodable env raw"
  shows "(json_loads env (strip raw) = Inl JSONDecodeError \<longrightarrow>
            call_model env ((init key)\<lparr>session_history := h\<rparr>) w prompt max_retries backoff_factor
            = (Inr (speak (unexpected_format_prefix @ raw) parse_failed),
               (world_after_retries payload backoff_factor k w)
                 \<lparr>posts := posts (world_after_retries payload backoff_factor k w) @ [payload]\<rparr>))
       \<and> (\<forall>v. json_loads env (strip raw) = Inr v \<and> encodable env (py_str env v) \<longrightarrow>
            call_model env ((init key)\<lparr>session_history := h\<rparr>) w prompt max_retries backoff_factor
            = (Inr v,
               (world_after_retries payload backoff_factor k w)
                 \<lparr>posts := posts (world_after_retries payload backoff_factor k w) @ [payload]\<rparr>))"
proof -
  from assms(11) have "encodable env (py_str env (JStr raw))"
    by simp
  with assms(5-10) have rr: "read_response env r = parse_content env (JStr raw)"
    by (rule read_response_completion)
  show ?thesis
  proof (intro conjI impI allI)
    assume "json_loads env (strip raw) = Inl JSONDecodeError"
    then have "read_response env r = Inr (speak (unexpected_format_prefix @ raw) parse_failed)"
      using assms(11) by (simp add: rr parse_content_not_json)
    with assms(1-5) show "call_model env ((init key)\<lparr>session_history := h\<rparr>) w prompt
        max_retries backoff_factor
        = (Inr (speak (unexpected_format_prefix @ raw) parse_failed),
           (world_after_retries payload backoff_factor k w)
             \<lparr>posts := posts (world_after_retries payload backoff_factor k w) @ [payload]\<rparr>)"
      by (rule call_model_attempt)
  next
    fix v
    assume "json_loads env (strip raw) = Inr v \<and> encodable env (py_str env v)"
    then have "read_response env r = Inr v"
      by (simp add: rr parse_content_json)
    with assms(1-5) show "call_model env ((init key)\<lparr>session_history := h\<rparr>) w prompt
        max_retries backoff_factor
        = (Inr v,
           (world_after_retries payload backoff_factor k w)
             \<lparr>posts := posts (world_after_retries payload backoff_factor k w) @ [payload]\<rparr>)"
      by (rule call_model_attempt)
  qed
qed

text \<open>
  An instance with the sample endpoint that answers 503 to the first request and a
  completion with the content \<open>hello\<close> to the second: the first attempt is made again
  after a sleep of one second, and the second ends the call with the \<open>speak\<close> action
  that shows \<open>hello\<close>.
\<close>

theorem call_model_content_not_json_witness:
  "\<exists>payload.
     build_payload (sample_env (answers_second (ascii ''hello''))) ((init [])\<lparr>session_history := []\<rparr>)
       (ascii ''hi'') = Inr payload
   \<and> retried (post (sample_env (answers_second (ascii ''hello''))) new_world payload)
   \<and> post (sample_env (answers_second (ascii ''hello'')))
        (world_after_retries payload 1 1 new_world) payload = Inr (completion (ascii ''hello''))
   \<and> encodable (sample_env (answers_second (ascii ''hello''))) (ascii ''hello'')
   \<and> json_loads (sample_env (answers_second (ascii ''hello''))) (strip (ascii ''hello''))
       = Inl JSONDecodeError
   \<and> call_model (sample_env (answers_second (ascii ''hello''))) ((init [])\<lparr>session_history := []\<rparr>)
        new_world (ascii ''hi'') 3 1
      = (Inr (speak (unexpected_format_prefix @ ascii ''hello'') parse_failed),
         \<lparr>posts = [payload, payload], sleeps = [1], os_events = []\<rparr>)"
proof -
  let ?E = "sample_env (answers_second (ascii ''hello''))"
  let ?d = "[(ascii ''choices'',
           JList [JDict [(ascii ''message'', JDict [(ascii ''content'', JStr (ascii ''hello''))])]])]"
  obtain payload where p: "build_payload ?E ((init [])\<lparr>session_history := []\<rparr>) (ascii ''hi'')
      = Inr payload"
    using build_payload_init by blast
  have first: "retried (post ?E new_world payload)"
    by (simp add: sample_env_def answers_second_def new_world_def retried_def upstream_error_def)
  then have again: "\<forall>i<1. retried (post ?E (world_after_retries payload 1 i new_world) payload)"
    by simp
  have second: "post ?E (world_after_retries payload 1 1 new_world) payload
      = Inr (completion (ascii ''hello''))"
    by (simp add: sample_env_def answers_second_def new_world_def sleep_backoff_def)
  have enc: "encodable ?E (ascii ''hello'')"
    by (simp add: encodable_ascii)
  have l: "json_loads ?E (strip (ascii ''hello'')) = Inl JSONDecodeError"
    by (simp add: sample_env_def sample_loads_def speak_hi_def speak_surrogate_def
        encode_basestring_ascii_def ascii_Cons strip_def isspace_def)
  have "call_model ?E ((init [])\<lparr>session_history := []\<rparr>) new_world (ascii ''hi'') 3 1
      = (Inr (speak (unexpected_format_prefix @ ascii ''hello'') parse_failed),
         (world_after_retries payload 1 1 new_world)
           \<lparr>posts := posts (world_after_retries payload 1 1 new_world) @ [payload]\<rparr>)"
    using call_model_content_not_json
      [OF p _ again second, where max_retries = 3 and d = ?d
        and c = "[(ascii ''message'', JDict [(ascii ''content'', JStr (ascii ''hello''))])]"
        and cs = "[]" and m = "[(ascii ''content'', JStr (ascii ''hello''))]"
        and raw = "ascii ''hello''"] l enc
    by (simp add: completion_def py_str_def sample_env_def)
  then have "call_model ?E ((init [])\<lparr>session_history := []\<rparr>) new_world (ascii ''hi'') 3 1
      = (Inr (speak (unexpected_format_prefix @ ascii ''hello'') parse_failed),
         \<lparr>posts = [payload, payload], sleeps = [1], os_events = []\<rparr>)"
    by (simp add: new_world_def sleep_backoff_def)
  with p first second enc l show ?thesis by blast
qed

text \<open>
  Claim C5 as stated fails: the content \<open>[1]\<close> is valid JSON and no action, and
  \<open>_call_model\<close> returns the list itself, not a \<open>speak\<close> action.
\<close>

theorem call_model_returns_list_counterexample:
  "fst (call_model (sample_env (answers (ascii ''[1]''))) (init []) new_world (ascii ''hi'') 3 1)
     = Inr (JList [JInt 1])"
proof -
  have "json_loads (sample_env (answers (ascii ''[1]''))) (strip (ascii ''[1]''))
      = Inr (JList [JInt 1])"
    by (simp add: sample_env_def sample_loads_def speak_hi_def speak_surrogate_def
        encode_basestring_ascii_def ascii_Cons strip_def isspace_def)
  moreover have "encodable (sample_env (answers (ascii ''[1]'')))
      (py_str (sample_env (answers (ascii ''[1]''))) (JList [JInt 1]))"
    by (simp add: py_str_def sample_env_def)
  ultimately have "parse_content (sample_env (answers (ascii ''[1]''))) (JStr (ascii ''[1]''))
      = Inr (JList [JInt 1])"
    by (rule parse_content_json)
  moreover have "encodable (sample_env (answers (ascii ''[1]''))) (ascii ''[1]'')"
    by (simp add: encodable_ascii)
  ultimately have "read_response (sample_env (answers (ascii ''[1]''))) (completion (ascii ''[1]''))
      = Inr (JList [JInt 1])"
    by (simp only: read_response_sample)
  from call_model_sample [OF this, of "[]" "[]" "ascii ''hi''"] show ?thesis
    by auto
qed




section \<open>The inner loop\<close>

text \<open>The \<open>speak\<close> branch of the executor: it returns when the line about the action and
  the line with the message can be printed, and raises otherwise.\<close>

lemma execute_action_speak:
  assumes "dict_get d (ascii ''action'') = JStr (ascii ''speak'')"
    and "encodable env (py_str env (dict_get_default d (ascii ''explanation'') (JStr [])))"
    and "encodable env (py_str env (dict_get_default d (ascii ''message'') (JStr [])))"
  shows "execute_action env w (JDict d) =
     (Inr \<lparr>result = ascii ''Agent spoke: ''
              @ py_str env (dict_get_default d (ascii ''message'') (JStr []))\<rparr>, w)"
proof -
  have "py_print env (action_info env (JStr (ascii ''speak''))
      (dict_get_default d (ascii ''explanation'') (JStr []))) = Inr ()"
    by (simp add: py_print_encodable encodable_action_info assms(2) encodable_ascii)
  moreover have "py_print env ([10] @ ascii ''[AGENT] ''
      @ py_str env (dict_get_default d (ascii ''message'') (JStr []))) = Inr ()"
    by (simp add: py_print_encodable assms(3) encodable_ascii)
  ultimately show ?thesis
    using assms(1) by (simp add: execute_action_def Let_def)
qed

lemma execute_action_speak_raises:
  assumes "dict_get d (ascii ''action'') = JStr (ascii ''speak'')"
    and "\<not> (encodable env (py_str env (dict_get_default d (ascii ''explanation'') (JStr [])))
            \<and> encodable env (py_str env (dict_get_default d (ascii ''message'') (JStr []))))"
  shows "execute_action env w (JDict d) = (Inl UnicodeEncodeError, w)"
proof (cases "encodable env (py_str env (dict_get_default d (ascii ''explanation'') (JStr [])))")
  case True
  then have "py_print env (action_info env (JStr (ascii ''speak''))
      (dict_get_default d (ascii ''explanation'') (JStr []))) = Inr ()"
    by (simp add: py_print_encodable encodable_action_info encodable_ascii)
  moreover from True assms(2) have "py_print env ([10] @ ascii ''[AGENT] ''
      @ py_str env (dict_get_default d (ascii ''message'') (JStr []))) = Inl UnicodeEncodeError"
    by (simp add: py_print_not_encodable)
  ultimately show ?thesis
    using assms(1) by (simp add: execute_action_def Let_def)
next
  case False
  then have "py_print env (action_info env (JStr (ascii ''speak''))
      (dict_get_default d (ascii ''explanation'') (JStr []))) = Inl UnicodeEncodeError"
    by (simp add: py_print_not_encodable encodable_action_info)
  then show ?thesis
    using assms(1) by (simp add: execute_action_def Let_def)
qed

text \<open>One pass of the loop in which the model decides to speak, from the executor on.\<close>

lemma inner_loop_decided:
  assumes "step_count < max_steps_per_input"
    and "call_model env self w (if step_count + 1 = 1 then user_input else []) 3 1
         = (Inr (JDict d), w1)"
  shows "inner_loop env user_input step_count self w =
     (case execute_action env w1 (JDict d) of
        (Inl e, w2) \<Rightarrow> (Some e, JStr [], self, w2)
      | (Inr execution_result, w2) \<Rightarrow>
          (let self1 = self\<lparr>session_history := session_history self
                         @ [assistant_turn env (JDict d)] @ [result_turn execution_result]\<rparr>
           in if action_get (JDict d) (ascii ''action'') JNull = JStr (ascii ''speak'')
              then (None, action_get (JDict d) (ascii ''message'') (JStr []), self1, w2)
              else inner_loop env user_input (step_count + 1) (truncate_history self1) w2))"
  by (subst inner_loop.simps)
     (simp only: assms if_True prod.case sum.case is_dict.simps not_True_eq_False if_False)

text \<open>When the two lines can be printed, the action is executed, both turns are
  appended, and the loop ends with the message as the final response. No truncation
  follows.\<close>

lemma inner_loop_speak:
  assumes "step_count < max_steps_per_input"
    and "call_model env self w (if step_count + 1 = 1 then user_input else []) 3 1
         = (Inr (JDict d), w1)"
    and "dict_get d (ascii ''action'') = JStr (ascii ''speak'')"
    and "encodable env (py_str env (dict_get_default d (ascii ''explanation'') (JStr [])))"
    and "encodable env (py_str env (dict_get_default d (ascii ''message'') (JStr [])))"
  shows "inner_loop env user_input step_count self w =
     (None, dict_get_default d (ascii ''message'') (JStr []),
      self\<lparr>session_history := session_history self
        @ [assistant_turn env (JDict d),
           result_turn \<lparr>result = ascii ''Agent spoke: ''
             @ py_str env (dict_get_default d (ascii ''message'') (JStr []))\<rparr>]\<rparr>,
      w1)"
  using inner_loop_decided [OF assms(1,2)]
  by (simp add: execute_action_speak [OF assms(3-5)] assms(3) [unfolded dict_get_def])

text \<open>The sample endpoint that answers every request with a given text, for a text that
  \<open>sample_loads\<close> reads as an action.\<close>

lemma read_response_sample_action:
  assumes "sample_loads (strip reply) = Inr action"
    and "encodable (sample_env p) reply"
    and "encodable (sample_env p) (py_str (sample_env p) action)"
  shows "read_response (sample_env p) (completion reply) = Inr action"
proof -
  from assms(1) have "json_loads (sample_env p) (strip reply) = Inr action"
    by (simp add: sample_env_def)
  then have "parse_content (sample_env p) (JStr reply) = Inr action"
    using assms(3) by (rule parse_content_json)
  with assms(2) show ?thesis
    by (simp only: read_response_sample)
qed

lemma call_model_sample_action:
  assumes "read_response (sample_env (answers reply)) (completion reply) = Inr action"
  shows "\<exists>payload system_content.
     call_model (sample_env (answers reply)) ((init key)\<lparr>session_history := h\<rparr>)
       new_world prompt 3 1
       = (Inr action, new_world\<lparr>posts := [payload]\<rparr>)
     \<and> messages payload = [\<lparr>role = ascii ''system'', content = system_content\<rparr>] @ h
                       @ [\<lparr>role = ascii ''user'', content = prompt\<rparr>]"
proof -
  obtain payload where p:
    "build_payload (sample_env (answers reply)) ((init key)\<lparr>session_history := h\<rparr>) prompt
       = Inr payload"
    "call_model (sample_env (answers reply)) ((init key)\<lparr>session_history := h\<rparr>)
       new_world prompt 3 1
       = (Inr action, new_world\<lparr>posts := [payload]\<rparr>)"
    using call_model_sample [OF assms] by blast
  obtain system_content where
    "messages payload = [\<lparr>role = ascii ''system'', content = system_content\<rparr>] @ h
                       @ [\<lparr>role = ascii ''user'', content = prompt\<rparr>]"
    using build_payload_init [where env = "sample_env (answers reply)"
        and key = key and h = h and prompt = prompt]
      p(1) by auto
  with p(2) show ?thesis by blast
qed

lemma read_response_speak_hi:
  "read_response (sample_env (answers (json_dumps (\<lambda>v. []) speak_hi)))
     (completion (json_dumps (\<lambda>v. []) speak_hi)) = Inr speak_hi"
proof (rule read_response_sample_action)
  have "strip (json_dumps (\<lambda>v. []) speak_hi) = json_dumps (\<lambda>v. []) speak_hi"
    by (simp add: speak_hi_def encode_basestring_ascii_def ascii_Cons strip_def isspace_def
        escape_char_def)
  then show "sample_loads (strip (json_dumps (\<lambda>v. []) speak_hi)) = Inr speak_hi"
    by (simp add: sample_loads_def)
  show "encodable (sample_env (answers (json_dumps (\<lambda>v. []) speak_hi)))
      (json_dumps (\<lambda>v. []) speak_hi)"
    by (simp add: speak_hi_def encode_basestring_ascii_def ascii_Cons escape_char_def)
  show "encodable (sample_env (answers (json_dumps (\<lambda>v. []) speak_hi)))
      (py_str (sample_env (answers (json_dumps (\<lambda>v. []) speak_hi))) speak_hi)"
    by (simp add: speak_hi_def py_str_def sample_env_def)
qed

lemma call_model_speak_hi:
  "\<exists>payload system_content.
     call_model (sample_env (answers (json_dumps (\<lambda>v. []) speak_hi)))
       ((init key)\<lparr>session_history := h\<rparr>) new_world prompt 3 1
       = (Inr speak_hi, new_world\<lparr>posts := [payload]\<rparr>)
     \<and> messages payload = [\<lparr>role = ascii ''system'', content = system_content\<rparr>] @ h
                       @ [\<lparr>role = ascii ''user'', content = prompt\<rparr>]"
  using read_response_speak_hi by (rule call_model_sample_action)

lemma read_response_speak_surrogate:
  "read_response (sample_env (answers (json_dumps (\<lambda>v. []) speak_surrogate)))
     (completion (json_dumps (\<lambda>v. []) speak_surrogate)) = Inr speak_surrogate"
proof (rule read_response_sample_action)
  have "strip (json_dumps (\<lambda>v. []) speak_surrogate) = json_dumps (\<lambda>v. []) speak_surrogate"
    by (simp add: speak_surrogate_def encode_basestring_ascii_def ascii_Cons strip_def
        isspace_def escape_char_def u_escape_def hex_digit_def)
  moreover have "json_dumps (\<lambda>v. []) speak_surrogate \<noteq> json_dumps (\<lambda>v. []) speak_hi"
    by (simp add: speak_surrogate_def speak_hi_def encode_basestring_ascii_def ascii_Cons
        escape_char_def u_escape_def hex_digit_def)
  ultimately show "sample_loads (strip (json_dumps (\<lambda>v. []) speak_surrogate))
      = Inr speak_surrogate"
    by (simp add: sample_loads_def)
  show "encodable (sample_env (answers (json_dumps (\<lambda>v. []) speak_surrogate)))
      (json_dumps (\<lambda>v. []) speak_surrogate)"
    by (simp add: speak_surrogate_def encode_basestring_ascii_def ascii_Cons escape_char_def
        u_escape_def hex_digit_def)
  show "encodable (sample_env (answers (json_dumps (\<lambda>v. []) speak_surrogate)))
      (py_str (sample_env (answers (json_dumps (\<lambda>v. []) speak_surrogate))) speak_surrogate)"
    by (simp add: speak_surrogate_def py_str_def sample_env_def)
qed

text \<open>
  Claim C8 fails on the code. When the decided action is \<open>speak\<close> and the standard output
  cannot encode its explanation or its message, a print of \<open>_execute_action\<close> raises
  \<open>UnicodeEncodeError\<close> outside every \<open>try\<close>: the inner loop is left by that exception at
  this step, nothing is recorded, and the final response is still the empty string, not
  the message.
\<close>

theorem speak_print_raises_in_inner_loop:
  assumes "step_count < max_steps_per_input"
    and "call_model env self w (if step_count + 1 = 1 then user_input else []) 3 1
         = (Inr (JDict d), w1)"
    and "dict_get d (ascii ''action'') = JStr (ascii ''speak'')"
    and "\<not> (encodable env (py_str env (dict_get_default d (ascii ''explanation'') (JStr [])))
            \<and> encodable env (py_str env (dict_get_default d (ascii ''message'') (JStr []))))"
  shows "inner_loop env user_input step_count self w
         = (Some UnicodeEncodeError, JStr [], self, w1)"
  using inner_loop_decided [OF assms(1,2)]
  by (simp add: execute_action_speak_raises [OF assms(3,4)])

text \<open>
  An instance at the first step of an input, with the sample endpoint that answers
  \<open>{"action": "speak", "message": "\ud83d"}\<close>: \<open>json.loads\<close> gives a message that is one
  lone surrogate, which UTF-8 cannot encode.
\<close>

theorem speak_print_raises_in_inner_loop_witness:
  "0 < max_steps_per_input
   \<and> dict_get [(ascii ''action'', JStr (ascii ''speak'')), (ascii ''message'', JStr [55357])]
        (ascii ''action'') = JStr (ascii ''speak'')
   \<and> dict_get_default
        [(ascii ''action'', JStr (ascii ''speak'')), (ascii ''message'', JStr [55357])]
        (ascii ''message'') (JStr []) = JStr [55357]
   \<and> \<not> encodable (sample_env (answers (json_dumps (\<lambda>v. []) speak_surrogate))) [55357]
   \<and> fst (call_model (sample_env (answers (json_dumps (\<lambda>v. []) speak_surrogate)))
        ((init [])\<lparr>session_history := [\<lparr>role = ascii ''user'', content = ascii ''hi''\<rparr>]\<rparr>)
        new_world (ascii ''hi'') 3 1) = Inr speak_surrogate
   \<and> fst (inner_loop (sample_env (answers (json_dumps (\<lambda>v. []) speak_surrogate))) (ascii ''hi'') 0
        ((init [])\<lparr>session_history := [\<lparr>role = ascii ''user'', content = ascii ''hi''\<rparr>]\<rparr>)
        new_world) = Some UnicodeEncodeError
   \<and> fst (snd (inner_loop (sample_env (answers (json_dumps (\<lambda>v. []) speak_surrogate)))
        (ascii ''hi'') 0
        ((init [])\<lparr>session_history := [\<lparr>role = ascii ''user'', content = ascii ''hi''\<rparr>]\<rparr>)
        new_world)) = JStr []"
proof -
  let ?E = "sample_env (answers (json_dumps (\<lambda>v. []) speak_surrogate))"
  let ?S = "(init [])\<lparr>session_history := [\<lparr>role = ascii ''user'', content = ascii ''hi''\<rparr>]\<rparr>"
  let ?d = "[(ascii ''action'', JStr (ascii ''speak'')), (ascii ''message'', JStr [55357])]"
  have steps: "0 < max_steps_per_input"
    by (simp add: max_steps_per_input_def)
  have kind: "dict_get ?d (ascii ''action'') = JStr (ascii ''speak'')"
    by (simp add: dict_get_def dict_get_default_def)
  have bad: "\<not> encodable ?E [55357]"
    by (simp add: sample_env_def)
  then have unprintable:
    "\<not> (encodable ?E (py_str ?E (dict_get_default ?d (ascii ''explanation'') (JStr [])))
        \<and> encodable ?E (py_str ?E (dict_get_default ?d (ascii ''message'') (JStr []))))"
    by (simp add: dict_get_default_def)
  obtain payload where call: "call_model ?E ?S new_world (ascii ''hi'') 3 1
      = (Inr speak_surrogate, new_world\<lparr>posts := [payload]\<rparr>)"
    using call_model_sample_action [OF read_response_speak_surrogate] by blast
  then have cm: "call_model ?E ?S new_world (if (0::nat) + 1 = 1 then ascii ''hi'' else []) 3 1
      = (Inr (JDict ?d), new_world\<lparr>posts := [payload]\<rparr>)"
    by (simp add: speak_surrogate_def)
  have "inner_loop ?E (ascii ''hi'') 0 ?S new_world
      = (Some UnicodeEncodeError, JStr [], ?S, new_world\<lparr>posts := [payload]\<rparr>)"
    using steps cm kind unprintable by (rule speak_print_raises_in_inner_loop)
  moreover have "dict_get_default ?d (ascii ''message'') (JStr []) = JStr [55357]"
    by (simp add: dict_get_default_def)
  ultimately show ?thesis
    using steps kind bad call by simp
qed

text \<open>
  Claim C7, as the code has it by design: when the decided action is \<open>speak\<close> and the
  standard output can encode its explanation and its message, so that the executor
  returns, the cycle is recorded before the loop ends. The history after the cycle
  begins with the history before it followed by the assistant turn that holds the
  serialized action. (What follows that turn is left open here.)
\<close>

theorem speak_cycle_appends_action:
  assumes "step_count < max_steps_per_input"
    and "call_model env self w (if step_count + 1 = 1 then user_input else []) 3 1
         = (Inr (JDict d), w1)"
    and "dict_get d (ascii ''action'') = JStr (ascii ''speak'')"
    and "encodable env (py_str env (dict_get_default d (ascii ''explanation'') (JStr [])))"
    and "encodable env (py_str env (dict_get_default d (ascii ''message'') (JStr [])))"
  shows "\<exists>final_response self' w'.
     inner_loop env user_input step_count self w = (None, final_response, self', w')
     \<and> prefix (session_history self @ [assistant_turn env (JDict d)]) (session_history self')"
proof -
  have "prefix (session_history self @ [assistant_turn env (JDict d)])
     (session_history (self\<lparr>session_history := session_history self
        @ [assistant_turn env (JDict d),
           result_turn \<lparr>result = ascii ''Agent spoke: ''
             @ py_str env (dict_get_default d (ascii ''message'') (JStr []))\<rparr>]\<rparr>))"
    by (simp add: prefix_def)
  with inner_loop_speak [OF assms] show ?thesis by blast
qed

text \<open>An instance at the first step of an input, with the sample endpoint that answers
  \<open>{"action": "speak", "message": "hi"}\<close>.\<close>

theorem speak_cycle_appends_action_witness:
  "0 < max_steps_per_input
   \<and> dict_get [(ascii ''action'', JStr (ascii ''speak'')), (ascii ''message'', JStr (ascii ''hi''))]
        (ascii ''action'') = JStr (ascii ''speak'')
   \<and> encodable (sample_env (answers (json_dumps (\<lambda>v. []) speak_hi))) (ascii ''hi'')
   \<and> (\<exists>w1 final_response self' w'.
         call_model (sample_env (answers (json_dumps (\<lambda>v. []) speak_hi)))
           ((init [])\<lparr>session_history := [\<lparr>role = ascii ''user'', content = ascii ''hi''\<rparr>]\<rparr>)
           new_world (if (0::nat) + 1 = 1 then ascii ''hi'' else []) 3 1
           = (Inr speak_hi, w1)
         \<and> inner_loop (sample_env (answers (json_dumps (\<lambda>v. []) speak_hi))) (ascii ''hi'') 0
             ((init [])\<lparr>session_history := [\<lparr>role = ascii ''user'', content = ascii ''hi''\<rparr>]\<rparr>)
             new_world
           = (None, final_response, self', w')
         \<and> prefix [\<lparr>role = ascii ''user'', content = ascii ''hi''\<rparr>,
                    assistant_turn (sample_env (answers (json_dumps (\<lambda>v. []) speak_hi))) speak_hi]
              (session_history self'))"
proof -
  let ?E = "sample_env (answers (json_dumps (\<lambda>v. []) speak_hi))"
  let ?S = "(init [])\<lparr>session_history := [\<lparr>role = ascii ''user'', content = ascii ''hi''\<rparr>]\<rparr>"
  let ?d = "[(ascii ''action'', JStr (ascii ''speak'')), (ascii ''message'', JStr (ascii ''hi''))]"
  have steps: "0 < max_steps_per_input"
    by (simp add: max_steps_per_input_def)
  have kind: "dict_get ?d (ascii ''action'') = JStr (ascii ''speak'')"
    by (simp add: dict_get_def dict_get_default_def)
  have hi: "encodable ?E (ascii ''hi'')"
    by (simp add: encodable_ascii)
  have expl: "encodable ?E (py_str ?E (dict_get_default ?d (ascii ''explanation'') (JStr [])))"
    by (simp add: dict_get_default_def)
  from hi have msg: "encodable ?E (py_str ?E (dict_get_default ?d (ascii ''message'') (JStr [])))"
    by (simp add: dict_get_default_def)
  obtain payload where "call_model ?E ?S new_world (ascii ''hi'') 3 1
      = (Inr speak_hi, new_world\<lparr>posts := [payload]\<rparr>)"
    using call_model_speak_hi by blast
  then have cm: "call_model ?E ?S new_world (if (0::nat) + 1 = 1 then ascii ''hi'' else []) 3 1
      = (Inr (JDict ?d), new_world\<lparr>posts := [payload]\<rparr>)"
    by (simp add: speak_hi_def)
  from speak_cycle_appends_action [OF steps cm kind expl msg]
  obtain final_response self' w' where
    "inner_loop ?E (ascii ''hi'') 0 ?S new_world = (None, final_response, self', w')"
    "prefix (session_history ?S @ [assistant_turn ?E (JDict ?d)]) (session_history self')"
    by blast
  then have "inner_loop ?E (ascii ''hi'') 0 ?S new_world = (None, final_response, self', w')
    \<and> prefix [\<lparr>role = ascii ''user'', content = ascii ''hi''\<rparr>, assistant_turn ?E speak_hi]
         (session_history self')"
    by (simp add: speak_hi_def)
  with steps kind hi cm show ?thesis
    unfolding speak_hi_def by blast
qed

text \<open>
  Claim C7 as stated fails: in that instance the decided action is \<open>speak\<close>, and the
  history after the cycle is the history before it with two more turns, the serialized
  action and the execution result.
\<close>

theorem speak_cycle_recorded_counterexample:
  "fst (call_model (sample_env (answers (json_dumps (\<lambda>v. []) speak_hi)))
         ((init [])\<lparr>session_history := [\<lparr>role = ascii ''user'', content = ascii ''hi''\<rparr>]\<rparr>)
         new_world (ascii ''hi'') 3 1) = Inr speak_hi
   \<and> action_get speak_hi (ascii ''action'') JNull = JStr (ascii ''speak'')
   \<and> session_history (fst (snd (snd
        (inner_loop (sample_env (answers (json_dumps (\<lambda>v. []) speak_hi))) (ascii ''hi'') 0
           ((init [])\<lparr>session_history := [\<lparr>role = ascii ''user'', content = ascii ''hi''\<rparr>]\<rparr>)
           new_world))))
      = [\<lparr>role = ascii ''user'', content = ascii ''hi''\<rparr>,
         assistant_turn (sample_env (answers (json_dumps (\<lambda>v. []) speak_hi))) speak_hi,
         \<lparr>role = ascii ''user'',
          content = ascii ''Action result:'' @ [10] @ ascii ''Agent spoke: hi''\<rparr>]
   \<and> session_history (fst (snd (snd
        (inner_loop (sample_env (answers (json_dumps (\<lambda>v. []) speak_hi))) (ascii ''hi'') 0
           ((init [])\<lparr>session_history := [\<lparr>role = ascii ''user'', content = ascii ''hi''\<rparr>]\<rparr>)
           new_world))))
      \<noteq> session_history
           ((init [])\<lparr>session_history := [\<lparr>role = ascii ''user'', content = ascii ''hi''\<rparr>]\<rparr>)"
proof -
  let ?E = "sample_env (answers (json_dumps (\<lambda>v. []) speak_hi))"
  let ?S = "(init [])\<lparr>session_history := [\<lparr>role = ascii ''user'', content = ascii ''hi''\<rparr>]\<rparr>"
  let ?d = "[(ascii ''action'', JStr (ascii ''speak'')), (ascii ''message'', JStr (ascii ''hi''))]"
  have steps: "0 < max_steps_per_input"
    by (simp add: max_steps_per_input_def)
  have kind: "dict_get ?d (ascii ''action'') = JStr (ascii ''speak'')"
    by (simp add: dict_get_def dict_get_default_def)
  have expl: "encodable ?E (py_str ?E (dict_get_default ?d (ascii ''explanation'') (JStr [])))"
    by (simp add: dict_get_default_def)
  have msg: "encodable ?E (py_str ?E (dict_get_default ?d (ascii ''message'') (JStr [])))"
    by (simp add: dict_get_default_def encodable_ascii)
  obtain payload where call: "call_model ?E ?S new_world (ascii ''hi'') 3 1
      = (Inr speak_hi, new_world\<lparr>posts := [payload]\<rparr>)"
    using call_model_speak_hi by blast
  then have cm: "call_model ?E ?S new_world (if (0::nat) + 1 = 1 then ascii ''hi'' else []) 3 1
      = (Inr (JDict ?d), new_world\<lparr>posts := [payload]\<rparr>)"
    by (simp add: speak_hi_def)
  have "session_history (fst (snd (snd (inner_loop ?E (ascii ''hi'') 0 ?S new_world))))
      = [\<lparr>role = ascii ''user'', content = ascii ''hi''\<rparr>, assistant_turn ?E speak_hi,
         \<lparr>role = ascii ''user'',
          content = ascii ''Action result:'' @ [10] @ ascii ''Agent spoke: hi''\<rparr>]"
    using inner_loop_speak [OF steps cm kind expl msg]
    by (simp add: speak_hi_def result_turn_def dict_get_default_def ascii_def)
  moreover have "action_get speak_hi (ascii ''action'') JNull = JStr (ascii ''speak'')"
    by (simp add: speak_hi_def dict_get_default_def)
  ultimately show ?thesis using call by simp
qed

section \<open>The first request of an input\<close>

lemma not_is_exit: "length user_input \<noteq> 4 \<Longrightarrow> \<not> is_exit user_input"
  by (auto simp: is_exit_def ascii_def dest: arg_cong [where f = length])

lemma run_one_line_speak_hi:
  assumes "strip raw = raw" and "raw \<noteq> []" and "\<not> is_exit raw"
  shows "\<exists>payload system_content self'.
     run (sample_env (answers (json_dumps (\<lambda>v. []) speak_hi))) [Line raw] (init key)
       = (self', new_world\<lparr>posts := [payload]\<rparr>)
     \<and> messages payload = [\<lparr>role = ascii ''system'', content = system_content\<rparr>]
          @ [\<lparr>role = ascii ''user'', content = raw\<rparr>]
          @ [\<lparr>role = ascii ''user'', content = raw\<rparr>]"
proof -
  let ?E = "sample_env (answers (json_dumps (\<lambda>v. []) speak_hi))"
  let ?S = "(init key)\<lparr>session_history := [\<lparr>role = ascii ''user'', content = raw\<rparr>]\<rparr>"
  let ?d = "[(ascii ''action'', JStr (ascii ''speak'')), (ascii ''message'', JStr (ascii ''hi''))]"
  have steps: "0 < max_steps_per_input"
    by (simp add: max_steps_per_input_def)
  have kind: "dict_get ?d (ascii ''action'') = JStr (ascii ''speak'')"
    by (simp add: dict_get_def dict_get_default_def)
  have expl: "encodable ?E (py_str ?E (dict_get_default ?d (ascii ''explanation'') (JStr [])))"
    by (simp add: dict_get_default_def)
  have msg: "encodable ?E (py_str ?E (dict_get_default ?d (ascii ''message'') (JStr [])))"
    by (simp add: dict_get_default_def encodable_ascii)
  obtain payload system_content where call:
    "call_model ?E ?S new_world raw 3 1 = (Inr speak_hi, new_world\<lparr>posts := [payload]\<rparr>)"
    and msgs: "messages payload = [\<lparr>role = ascii ''system'', content = system_content\<rparr>]
          @ [\<lparr>role = ascii ''user'', content = raw\<rparr>]
          @ [\<lparr>role = ascii ''user'', content = raw\<rparr>]"
    using call_model_speak_hi [where key = key
        and h = "[\<lparr>role = ascii ''user'', content = raw\<rparr>]" and prompt = raw] by blast
  from call have cm: "call_model ?E ?S new_world (if (0::nat) + 1 = 1 then raw else []) 3 1
      = (Inr (JDict ?d), new_world\<lparr>posts := [payload]\<rparr>)"
    by (simp add: speak_hi_def)
  obtain self' where loop: "inner_loop ?E raw 0 ?S new_world
      = (None, JStr (ascii ''hi''), self', new_world\<lparr>posts := [payload]\<rparr>)"
    using inner_loop_speak [OF steps cm kind expl msg] by (auto simp: dict_get_default_def)
  have final: "py_print ?E ([10] @ ascii ''[FINAL AGENT RESPONSE] ''
      @ py_str ?E (JStr (ascii ''hi''))) = Inr ()"
    by (simp add: py_print_encodable encodable_ascii)
  have "(init key)\<lparr>session_history := session_history (init key)
           @ [\<lparr>role = ascii ''user'', content = raw\<rparr>]\<rparr> = ?S"
    by (simp add: init_def)
  with loop final assms have "run ?E [Line raw] (init key)
      = (self', new_world\<lparr>posts := [payload]\<rparr>)"
    by (simp add: run_def Let_def)
  with msgs show ?thesis by blast
qed

text \<open>
  Claim C4 fails on the code. \<open>run\<close> appends the user's line to the history and calls
  \<open>_call_model\<close> before any truncation. For a first line of 30000 letters, with the
  sample endpoint, exactly one request is posted, and the system message and the history
  in it together exceed \<open>max_context_length\<close>.
\<close>

theorem first_request_over_budget:
  "length (posts (snd (run (sample_env (answers (json_dumps (\<lambda>v. []) speak_hi)))
       [Line (replicate 30000 97)] (init key)))) = 1
   \<and> max_context_length (init key)
       < context_chars (hd (posts (snd (run (sample_env (answers (json_dumps (\<lambda>v. []) speak_hi)))
           [Line (replicate 30000 97)] (init key)))))"
proof -
  have "strip (replicate 30000 97) = replicate 30000 97"
    by (rule strip_plain) (simp_all add: isspace_def)
  moreover have "replicate 30000 (97::nat) \<noteq> []"
    by simp
  moreover have "\<not> is_exit (replicate 30000 97)"
    by (rule not_is_exit) simp
  ultimately obtain payload system_content self' where r:
    "run (sample_env (answers (json_dumps (\<lambda>v. []) speak_hi))) [Line (replicate 30000 97)] (init key)
       = (self', new_world\<lparr>posts := [payload]\<rparr>)"
    "messages payload = [\<lparr>role = ascii ''system'', content = system_content\<rparr>]
          @ [\<lparr>role = ascii ''user'', content = replicate 30000 97\<rparr>]
          @ [\<lparr>role = ascii ''user'', content = replicate 30000 97\<rparr>]"
    using run_one_line_speak_hi by blast
  have "context_chars payload = length system_content + history_chars [big_turn]"
    by (simp add: context_chars_def r(2) big_turn_def)
  then have "30000 < context_chars payload"
    by (simp add: history_chars_def length_json_dumps_big_turn)
  moreover have "max_context_length (init key) = 30000"
    by (simp add: init_def)
  ultimately show ?thesis
    unfolding r(1) by simp
qed

text \<open>The same run for the empty API key, with the budget written out.\<close>

theorem first_request_over_budget_witness:
  "length (posts (snd (run (sample_env (answers (json_dumps (\<lambda>v. []) speak_hi)))
       [Line (replicate 30000 97)] (init [])))) = 1
   \<and> 30000
       < context_chars (hd (posts (snd (run (sample_env (answers (json_dumps (\<lambda>v. []) speak_hi)))
           [Line (replicate 30000 97)] (init [])))))"
proof -
  have "max_context_length (init []) = 30000"
    by (simp add: init_def)
  with first_request_over_budget [of "[]"] show ?thesis
    by simp
qed

end
